theory Spec2Isabelle
  imports Main "HOL-Library.AList"
begin

section \<open>Values\<close>

text \<open>
  The values that \<^verbatim>\<open>json.load\<close> and \<^verbatim>\<open>resp.json()\<close> hand to the program. A Python
  dict keeps insertion order and has no duplicate keys: it is an association list whose
  keys are distinct, read with \<^const>\<open>map_of\<close>, written with \<^const>\<open>AList.update\<close>
  (replace in place, else append) and popped with \<^const>\<open>AList.delete\<close>.
  Numbers are the integers; floating-point numbers are not represented.
\<close>

datatype json =
    JNull
  | JBool bool
  | JInt int
  | JStr string
  | JList "json list"
  | JDict "(string \<times> json) list"

type_synonym props = "(string \<times> json) list"

text \<open>The exceptions the modelled code can raise.\<close>

datatype exn =
    ValueError
  | IndexError
  | KeyError string
  | TypeError
  | AttributeError
  | TransportError
  | HTTPStatusError nat

text \<open>Python truth value of a value: \<^verbatim>\<open>if x\<close>, \<^verbatim>\<open>not x\<close>.\<close>

fun py_truthy :: "json \<Rightarrow> bool" where
  "py_truthy JNull = False"
| "py_truthy (JBool b) = b"
| "py_truthy (JInt i) = (i \<noteq> 0)"
| "py_truthy (JStr s) = (s \<noteq> [])"
| "py_truthy (JList xs) = (xs \<noteq> [])"
| "py_truthy (JDict kvs) = (kvs \<noteq> [])"

text \<open>
  Python \<^verbatim>\<open>==\<close> on these values: \<^verbatim>\<open>True == 1\<close> and \<^verbatim>\<open>False == 0\<close> hold, lists are
  compared element by element, dicts as mappings whatever their order.
\<close>

fun py_eq :: "json \<Rightarrow> json \<Rightarrow> bool"
  and py_eq_list :: "json list \<Rightarrow> json list \<Rightarrow> bool"
  and py_eq_sub :: "(string \<times> json) list \<Rightarrow> (string \<times> json) list \<Rightarrow> bool"
where
  "py_eq JNull y = (y = JNull)"
| "py_eq (JBool a) y =
     (case y of JBool b \<Rightarrow> a = b | JInt j \<Rightarrow> (if a then 1 else 0) = j | _ \<Rightarrow> False)"
| "py_eq (JInt i) y =
     (case y of JBool b \<Rightarrow> i = (if b then 1 else 0) | JInt j \<Rightarrow> i = j | _ \<Rightarrow> False)"
| "py_eq (JStr s) y = (y = JStr s)"
| "py_eq (JList xs) y = (case y of JList ys \<Rightarrow> py_eq_list xs ys | _ \<Rightarrow> False)"
| "py_eq (JDict kvs) y =
     (case y of JDict kvs' \<Rightarrow> length kvs = length kvs' \<and> py_eq_sub kvs kvs' | _ \<Rightarrow> False)"
| "py_eq_list [] ys = (ys = [])"
| "py_eq_list (x # xs) ys =
     (case ys of [] \<Rightarrow> False | y # ys' \<Rightarrow> py_eq x y \<and> py_eq_list xs ys')"
| "py_eq_sub [] kvs' = True"
| "py_eq_sub (kv # kvs) kvs' =
     (case map_of kvs' (fst kv) of
        None \<Rightarrow> False
      | Some v' \<Rightarrow> py_eq (snd kv) v' \<and> py_eq_sub kvs kvs')"

text \<open>\<^verbatim>\<open>value in allowed\<close> on a list: some element equals the value.\<close>

definition py_in :: "json \<Rightarrow> json list \<Rightarrow> bool" where
  "py_in v xs = list_ex (\<lambda>a. py_eq a v) xs"

section \<open>Field resolver: \<^verbatim>\<open>SyncManager.get_nested_value\<close>\<close>

text \<open>\<^verbatim>\<open>str.split(".")\<close>: never empty, the empty string gives one empty segment.\<close>

fun split_dot :: "string \<Rightarrow> string list" where
  "split_dot [] = [[]]"
| "split_dot (c # cs) =
     (if c = CHR ''.'' then [] # split_dot cs
      else (case split_dot cs of [] \<Rightarrow> [[c]] | w # ws \<Rightarrow> (c # w) # ws))"

text \<open>
  \<^verbatim>\<open>int(key)\<close> on a string, base ten. A character stands for the code point of the same
  number, so the strings are those of code points below 256. White space on either side is
  stripped: the six ASCII characters tab, line feed, vertical tab, form feed, carriage
  return and space, and the two other white-space code points below 256, U+0085 and
  U+00A0. Then one sign is allowed, the digits \<^verbatim>\<open>0\<close> to \<^verbatim>\<open>9\<close> may be separated by single
  underscores, and more than 4300 digits (the interpreter's default limit) or anything
  else raises \<^verbatim>\<open>ValueError\<close>.
\<close>

definition py_isspace :: "char \<Rightarrow> bool" where
  "py_isspace c = (of_char c \<in> {9, 10, 11, 12, 13, 32, 133, 160 :: nat})"

definition py_isdigit :: "char \<Rightarrow> bool" where
  "py_isdigit c = (48 \<le> (of_char c :: nat) \<and> (of_char c :: nat) \<le> 57)"

definition digit_val :: "char \<Rightarrow> int" where
  "digit_val c = int (of_char c) - 48"

fun underscores_ok :: "string \<Rightarrow> bool" where
  "underscores_ok [] = True"
| "underscores_ok [c] = (c \<noteq> CHR ''_'')"
| "underscores_ok (c # d # cs) =
     (\<not> (c = CHR ''_'' \<and> d = CHR ''_'') \<and> underscores_ok (d # cs))"

definition digits_value :: "string \<Rightarrow> int" where
  "digits_value body =
     foldl (\<lambda>a c. if c = CHR ''_'' then a else 10 * a + digit_val c) 0 body"

definition py_int :: "string \<Rightarrow> exn + int" where
  "py_int s =
     (let s1 = dropWhile py_isspace s;
          neg = (case s1 of c # _ \<Rightarrow> c = CHR ''-'' | [] \<Rightarrow> False);
          s2 = (case s1 of c # r \<Rightarrow> (if c = CHR ''-'' \<or> c = CHR ''+'' then r else s1)
                         | [] \<Rightarrow> s1);
          body = takeWhile (\<lambda>c. py_isdigit c \<or> c = CHR ''_'') s2;
          rest = dropWhile (\<lambda>c. py_isdigit c \<or> c = CHR ''_'') s2
      in if body = [] \<or> hd body = CHR ''_'' \<or> \<not> underscores_ok body
            \<or> dropWhile py_isspace rest \<noteq> []
            \<or> 4300 < length (filter py_isdigit body)
         then Inl ValueError
         else Inr (if neg then - digits_value body else digits_value body))"

text \<open>
  \<^verbatim>\<open>data[i]\<close> on a list of length \<open>n\<close>: the indices \<open>0 .. n - 1\<close> read from the front,
  the indices \<open>- n .. - 1\<close> from the back, and every other index raises \<^verbatim>\<open>IndexError\<close>.
\<close>

definition list_getitem :: "'a list \<Rightarrow> int \<Rightarrow> exn + 'a" where
  "list_getitem xs i =
     (if 0 \<le> i
      then (if i < int (length xs) then Inr (xs ! nat i) else Inl IndexError)
      else (if - int (length xs) \<le> i then Inr (xs ! nat (int (length xs) + i))
            else Inl IndexError))"

text \<open>The body of the \<^verbatim>\<open>try\<close>: \<^verbatim>\<open>data[int(key)]\<close>.\<close>

definition list_item_at_key :: "json list \<Rightarrow> string \<Rightarrow> exn + json" where
  "list_item_at_key xs key =
     (case py_int key of Inl e \<Rightarrow> Inl e | Inr i \<Rightarrow> list_getitem xs i)"

text \<open>\<^verbatim>\<open>d.get(key)\<close>: \<^verbatim>\<open>None\<close> when the key is missing.\<close>

definition dict_get :: "(string \<times> json) list \<Rightarrow> string \<Rightarrow> json" where
  "dict_get kvs key = (case map_of kvs key of None \<Rightarrow> JNull | Some v \<Rightarrow> v)"

text \<open>
  The loop over the segments. \<^verbatim>\<open>except Exception: return None\<close> turns any raise of the
  \<^verbatim>\<open>try\<close> body into the result \<^verbatim>\<open>None\<close>.
\<close>

fun walk_keys :: "json \<Rightarrow> string list \<Rightarrow> exn + json" where
  "walk_keys data [] = Inr data"
| "walk_keys (JList xs) (key # keys) =
     (case list_item_at_key xs key of
        Inl e \<Rightarrow> Inr JNull
      | Inr v \<Rightarrow> walk_keys v keys)"
| "walk_keys (JDict kvs) (key # keys) = walk_keys (dict_get kvs key) keys"
| "walk_keys data (key # keys) = Inr JNull"

definition get_nested_value :: "json \<Rightarrow> string \<Rightarrow> exn + json" where
  "get_nested_value data path = walk_keys data (split_dot path)"

section \<open>Value normalizer: step 3 of \<^verbatim>\<open>SyncManager.send_to_hubspot\<close>\<close>

text \<open>
  One entry of \<^verbatim>\<open>allowed_values\<close>: \<^verbatim>\<open>rules.get("allowed", [])\<close> and
  \<^verbatim>\<open>rules.get("default", None)\<close>, so a rule without a default has \<^const>\<open>JNull\<close>.
\<close>

record rule =
  rule_allowed :: "json list"
  rule_default :: json

text \<open>
  The body of the loop over \<^verbatim>\<open>allowed_cfg.items()\<close> for one field: nothing happens
  unless the field is present with a value other than \<^verbatim>\<open>None\<close>, the allowed list is
  not empty and the value is not in it; then a truthy default replaces the value and
  otherwise the field is popped.
\<close>

definition apply_rule :: "props \<Rightarrow> string \<Rightarrow> rule \<Rightarrow> props" where
  "apply_rule properties field rules =
     (case map_of properties field of
        None \<Rightarrow> properties
      | Some v \<Rightarrow>
          if v = JNull then properties
          else if rule_allowed rules \<noteq> [] \<and> \<not> py_in v (rule_allowed rules)
          then (if py_truthy (rule_default rules)
                then AList.update field (rule_default rules) properties
                else AList.delete field properties)
          else properties)"

fun apply_allowed_values :: "props \<Rightarrow> (string \<times> rule) list \<Rightarrow> props" where
  "apply_allowed_values properties [] = properties"
| "apply_allowed_values properties ((field, rules) # rest) =
     apply_allowed_values (apply_rule properties field rules) rest"

section \<open>The two HTTP interfaces\<close>

text \<open>
  The requests the code sends, with the part of each that the receiving side can see:
  the path segments of the URL and the JSON payload.
\<close>

datatype call =
    GetShopify string
  | GetMetafields string json
  | GetProperties string
  | PostProperty string string string
  | PostSearch string string json "nat option"
  | PatchObject string json props
  | PostObject string props

record metafield =
  meta_key :: "string option"
  meta_value :: json

text \<open>
  The decoded body of a response, by the key the code reads from it; a body without that
  key is any other constructor, and the code's \<^verbatim>\<open>.get(key, [])\<close> then gives the empty
  list. A metafield's \<^verbatim>\<open>key\<close>, when present, is a string; its \<^verbatim>\<open>value\<close> is \<^const>\<open>JNull\<close>
  when missing.
\<close>

datatype body =
    NoBody
  | Records "json list"
  | Metafields "metafield list"
  | Names "string list"
  | Results "json list"

text \<open>A request either raises in the transport (no response) or returns a status and a body.\<close>

datatype reply = NoReply | Reply nat body

type_synonym 'w net = "call \<Rightarrow> 'w \<Rightarrow> reply \<times> 'w"

text \<open>The state threaded through the program: the outside world and the requests sent so far.\<close>

type_synonym 'w st = "'w \<times> call list"

definition request :: "'w net \<Rightarrow> call \<Rightarrow> 'w st \<Rightarrow> reply \<times> 'w st" where
  "request net c s = (case net c (fst s) of (r, w') \<Rightarrow> (r, (w', snd s @ [c])))"

text \<open>\<^verbatim>\<open>resp.raise_for_status()\<close> raises unless the status is 2xx.\<close>

definition is_success :: "nat \<Rightarrow> bool" where
  "is_success status = (200 \<le> status \<and> status < 300)"

text \<open>The requests that list the property names of an object type.\<close>

fun is_listing :: "call \<Rightarrow> bool" where
  "is_listing (GetProperties obj) = True"
| "is_listing c = False"

text \<open>The requests that read or write the objects of an object type.\<close>

fun is_object_request :: "call \<Rightarrow> bool" where
  "is_object_request (PostSearch obj field v limit) = True"
| "is_object_request (PatchObject obj i p) = True"
| "is_object_request (PostObject obj p) = True"
| "is_object_request c = False"

section \<open>\<^verbatim>\<open>SyncManager\<close> (\<^verbatim>\<open>05_dynamic_fileds/sync_manager.py\<close>)\<close>

text \<open>The entry of the configuration file for one object type.\<close>

record obj_config =
  shopify_endpoint :: string
  shopify_key :: string
  hubspot_object :: string
  unique_field :: string
  property_group :: string
  field_mapping :: "(string \<times> string) list"
  allowed_values :: "(string \<times> rule) list"

definition fetch_shopify_data :: "'w net \<Rightarrow> obj_config \<Rightarrow> 'w st \<Rightarrow> (exn + json list) \<times> 'w st" where
  "fetch_shopify_data net config s =
     (case request net (GetShopify (shopify_endpoint config)) s of
        (NoReply, s') \<Rightarrow> (Inl TransportError, s')
      | (Reply status b, s') \<Rightarrow>
          if \<not> is_success status then (Inl (HTTPStatusError status), s')
          else (Inr (case b of Records xs \<Rightarrow> xs | _ \<Rightarrow> []), s'))"

definition fetch_metafields ::
  "'w net \<Rightarrow> string \<Rightarrow> json \<Rightarrow> 'w st \<Rightarrow> (exn + metafield list) \<times> 'w st" where
  "fetch_metafields net shopify_object shopify_id s =
     (case request net (GetMetafields shopify_object shopify_id) s of
        (NoReply, s') \<Rightarrow> (Inl TransportError, s')
      | (Reply status b, s') \<Rightarrow>
          if status = 200 then (Inr (case b of Metafields ms \<Rightarrow> ms | _ \<Rightarrow> []), s')
          else (Inr [], s'))"

definition get_hubspot_properties ::
  "'w net \<Rightarrow> string \<Rightarrow> 'w st \<Rightarrow> (exn + string list) \<times> 'w st" where
  "get_hubspot_properties net hubspot_obj s =
     (case request net (GetProperties (hubspot_obj @ ''s'')) s of
        (NoReply, s') \<Rightarrow> (Inl TransportError, s')
      | (Reply status b, s') \<Rightarrow>
          if \<not> is_success status then (Inl (HTTPStatusError status), s')
          else (Inr (case b of Names ns \<Rightarrow> ns | _ \<Rightarrow> []), s'))"

text \<open>What \<^verbatim>\<open>create_hubspot_property\<close> prints: "Property ready" or "Failed to create property".\<close>

datatype property_outcome = PropertyReady | PropertyFailed

definition create_hubspot_property ::
  "'w net \<Rightarrow> string \<Rightarrow> string \<Rightarrow> string \<Rightarrow> 'w st \<Rightarrow> (exn + property_outcome) \<times> 'w st" where
  "create_hubspot_property net hubspot_obj name group_name s =
     (case request net (PostProperty (hubspot_obj @ ''s'') name group_name) s of
        (NoReply, s') \<Rightarrow> (Inl TransportError, s')
      | (Reply status b, s') \<Rightarrow>
          if status = 201 \<or> status = 409 then (Inr PropertyReady, s')
          else (Inr PropertyFailed, s'))"

text \<open>Step 1: the loop over \<^verbatim>\<open>mapping.items()\<close>.\<close>

fun map_fields :: "json \<Rightarrow> (string \<times> string) list \<Rightarrow> props \<Rightarrow> exn + props" where
  "map_fields shopify_obj [] properties = Inr properties"
| "map_fields shopify_obj ((shopify_field, hubspot_field) # rest) properties =
     (case get_nested_value shopify_obj shopify_field of
        Inl e \<Rightarrow> Inl e
      | Inr v \<Rightarrow> map_fields shopify_obj rest (AList.update hubspot_field v properties))"

text \<open>\<^verbatim>\<open>shopify_obj.get("id")\<close>: only a dict has \<^verbatim>\<open>get\<close>.\<close>

definition obj_get :: "json \<Rightarrow> string \<Rightarrow> exn + json" where
  "obj_get obj key = (case obj of JDict kvs \<Rightarrow> Inr (dict_get kvs key) | _ \<Rightarrow> Inl AttributeError)"

text \<open>Step 2: \<^verbatim>\<open>properties[meta["key"]] = meta.get("value")\<close> for each metafield.\<close>

fun add_metafields :: "metafield list \<Rightarrow> props \<Rightarrow> exn + props" where
  "add_metafields [] properties = Inr properties"
| "add_metafields (meta # rest) properties =
     (case meta_key meta of
        None \<Rightarrow> Inl (KeyError ''key'')
      | Some k \<Rightarrow> add_metafields rest (AList.update k (meta_value meta) properties))"

text \<open>
  Steps 1 to 3 together: the property map of a record, given the metafields fetched for it.
\<close>

definition record_properties :: "obj_config \<Rightarrow> json \<Rightarrow> metafield list \<Rightarrow> exn + props" where
  "record_properties config shopify_obj metafields =
     (case map_fields shopify_obj (field_mapping config) [] of
        Inl e \<Rightarrow> Inl e
      | Inr p1 \<Rightarrow>
          (case add_metafields metafields p1 of
             Inl e \<Rightarrow> Inl e
           | Inr p2 \<Rightarrow> Inr (apply_allowed_values p2 (allowed_values config))))"

text \<open>
  Step 4: the loop over \<^verbatim>\<open>list(properties.keys())\<close>, against the list of property names
  fetched before the loop. (\<^verbatim>\<open>time.sleep\<close> is not represented.)
\<close>

fun create_missing ::
  "'w net \<Rightarrow> string \<Rightarrow> string \<Rightarrow> string list \<Rightarrow> string list \<Rightarrow> 'w st \<Rightarrow> (exn + unit) \<times> 'w st" where
  "create_missing net hubspot_obj group_name current_properties [] s = (Inr (), s)"
| "create_missing net hubspot_obj group_name current_properties (field # rest) s =
     (if field \<in> set current_properties
      then create_missing net hubspot_obj group_name current_properties rest s
      else (case create_hubspot_property net hubspot_obj field group_name s of
              (Inl e, s') \<Rightarrow> (Inl e, s')
            | (Inr _, s') \<Rightarrow> create_missing net hubspot_obj group_name current_properties rest s'))"

text \<open>
  What \<^verbatim>\<open>send_to_hubspot\<close> prints for the record (it returns \<^verbatim>\<open>None\<close> in every case):
  "Skipping", "Updated", "Created" or "Failed".
\<close>

datatype outcome = Skipped | Updated | Created | FailedCreate | FailedUpdate

text \<open>\<^verbatim>\<open>results[0]["id"]\<close>.\<close>

definition result_id :: "json \<Rightarrow> exn + json" where
  "result_id r =
     (case r of
        JDict kvs \<Rightarrow> (case map_of kvs ''id'' of None \<Rightarrow> Inl (KeyError ''id'') | Some v \<Rightarrow> Inr v)
      | _ \<Rightarrow> Inl TypeError)"

text \<open>Step 6: search, then update the first result or create.\<close>

definition search_then_write ::
  "'w net \<Rightarrow> string \<Rightarrow> string \<Rightarrow> props \<Rightarrow> 'w st \<Rightarrow> (exn + outcome) \<times> 'w st" where
  "search_then_write net hubspot_obj unique properties s =
     (case request net (PostSearch (hubspot_obj @ ''s'') unique (dict_get properties unique) (Some 1)) s of
        (NoReply, s1) \<Rightarrow> (Inl TransportError, s1)
      | (Reply status b, s1) \<Rightarrow>
          (let results = (if status = 200 then (case b of Results rs \<Rightarrow> rs | _ \<Rightarrow> []) else [])
           in case results of
                r # _ \<Rightarrow>
                  (case result_id r of
                     Inl e \<Rightarrow> (Inl e, s1)
                   | Inr obj_id \<Rightarrow>
                       (case request net (PatchObject (hubspot_obj @ ''s'') obj_id properties) s1 of
                          (NoReply, s2) \<Rightarrow> (Inl TransportError, s2)
                        | (Reply _ _, s2) \<Rightarrow> (Inr Updated, s2)))
              | [] \<Rightarrow>
                  (case request net (PostObject (hubspot_obj @ ''s'') properties) s1 of
                     (NoReply, s2) \<Rightarrow> (Inl TransportError, s2)
                   | (Reply st2 _, s2) \<Rightarrow>
                       (if st2 = 201 then (Inr Created, s2) else (Inr FailedCreate, s2)))))"

definition send_to_hubspot ::
  "'w net \<Rightarrow> obj_config \<Rightarrow> json \<Rightarrow> 'w st \<Rightarrow> (exn + outcome) \<times> 'w st" where
  "send_to_hubspot net config shopify_obj s =
     (case map_fields shopify_obj (field_mapping config) [] of
        Inl e \<Rightarrow> (Inl e, s)
      | Inr p1 \<Rightarrow>
     (case obj_get shopify_obj ''id'' of
        Inl e \<Rightarrow> (Inl e, s)
      | Inr shopify_id \<Rightarrow>
     (case fetch_metafields net (shopify_key config) shopify_id s of
        (Inl e, s1) \<Rightarrow> (Inl e, s1)
      | (Inr metafields, s1) \<Rightarrow>
     (case add_metafields metafields p1 of
        Inl e \<Rightarrow> (Inl e, s1)
      | Inr p2 \<Rightarrow>
     (let properties = apply_allowed_values p2 (allowed_values config) in
      case get_hubspot_properties net (hubspot_object config) s1 of
        (Inl e, s2) \<Rightarrow> (Inl e, s2)
      | (Inr current_properties, s2) \<Rightarrow>
     (case create_missing net (hubspot_object config) (property_group config)
             current_properties (map fst properties) s2 of
        (Inl e, s3) \<Rightarrow> (Inl e, s3)
      | (Inr _, s3) \<Rightarrow>
          if \<not> py_truthy (dict_get properties (unique_field config)) then (Inr Skipped, s3)
          else search_then_write net (hubspot_object config) (unique_field config)
                 properties s3))))))"




section \<open>\<^verbatim>\<open>SyncManager\<close> of \<^verbatim>\<open>01_run_but_confilt_so_filed_missing/sync_manager.py\<close>\<close>






section \<open>\<^verbatim>\<open>Create_custom_attributes\<close>: the services and \<^verbatim>\<open>sync_custom_attributes\<close>\<close>

definition get_shopify_customers :: "'w net \<Rightarrow> 'w st \<Rightarrow> (exn + json list) \<times> 'w st" where
  "get_shopify_customers net s =
     (case request net (GetShopify ''customers.json'') s of
        (NoReply, s') \<Rightarrow> (Inl TransportError, s')
      | (Reply status b, s') \<Rightarrow>
          if \<not> is_success status then (Inl (HTTPStatusError status), s')
          else (Inr (case b of Records xs \<Rightarrow> xs | _ \<Rightarrow> []), s'))"

text \<open>The dict comprehension of \<^verbatim>\<open>get_customer_metafields\<close>: entries without a key are left out.\<close>

fun metafields_dict :: "metafield list \<Rightarrow> props \<Rightarrow> props" where
  "metafields_dict [] d = d"
| "metafields_dict (mf # rest) d =
     (case meta_key mf of
        None \<Rightarrow> metafields_dict rest d
      | Some k \<Rightarrow> metafields_dict rest (AList.update k (meta_value mf) d))"

definition get_customer_metafields :: "'w net \<Rightarrow> json \<Rightarrow> 'w st \<Rightarrow> (exn + props) \<times> 'w st" where
  "get_customer_metafields net customer_id s =
     (case request net (GetMetafields ''customers'' customer_id) s of
        (NoReply, s') \<Rightarrow> (Inl TransportError, s')
      | (Reply status b, s') \<Rightarrow>
          if \<not> is_success status then (Inl (HTTPStatusError status), s')
          else (Inr (metafields_dict (case b of Metafields ms \<Rightarrow> ms | _ \<Rightarrow> []) []), s'))"

text \<open>The set of the property names that are not empty.\<close>

definition fetch_hubspot_properties ::
  "'w net \<Rightarrow> string \<Rightarrow> 'w st \<Rightarrow> (exn + string list) \<times> 'w st" where
  "fetch_hubspot_properties net object_type s =
     (case request net (GetProperties object_type) s of
        (NoReply, s') \<Rightarrow> (Inl TransportError, s')
      | (Reply status b, s') \<Rightarrow>
          if \<not> is_success status then (Inl (HTTPStatusError status), s')
          else (Inr (remdups (filter (\<lambda>n. n \<noteq> []) (case b of Names ns \<Rightarrow> ns | _ \<Rightarrow> []))), s'))"

text \<open>
  \<^verbatim>\<open>create_hubspot_property\<close> of \<^verbatim>\<open>hubspot_service.py\<close> returns the status code (and the
  body, which the caller drops).
\<close>

definition create_hubspot_property_contacts ::
  "'w net \<Rightarrow> string \<Rightarrow> string \<Rightarrow> 'w st \<Rightarrow> (exn + nat) \<times> 'w st" where
  "create_hubspot_property_contacts net name label s =
     (case request net (PostProperty ''contacts'' name ''contactinformation'') s of
        (NoReply, s') \<Rightarrow> (Inl TransportError, s')
      | (Reply status b, s') \<Rightarrow> (Inr status, s'))"

text \<open>The first component of what \<^verbatim>\<open>create_or_update_hubspot_contact\<close> returns, with the status.\<close>

datatype contact_result =
    ContactCreated
  | ContactFailed nat
  | ContactFailedSearch nat
  | ContactNotFound
  | ContactInvalidId
  | ContactUpdated
  | ContactFailedUpdate nat

definition create_or_update_hubspot_contact ::
  "'w net \<Rightarrow> json \<Rightarrow> props \<Rightarrow> 'w st \<Rightarrow> (exn + contact_result) \<times> 'w st" where
  "create_or_update_hubspot_contact net email properties s =
     (case request net (PostObject ''contacts'' properties) s of
        (NoReply, s1) \<Rightarrow> (Inl TransportError, s1)
      | (Reply create_status _, s1) \<Rightarrow>
          if create_status = 201 then (Inr ContactCreated, s1)
          else if create_status \<noteq> 409 then (Inr (ContactFailed create_status), s1)
          else
     (case request net (PostSearch ''contacts'' ''email'' email None) s1 of
        (NoReply, s2) \<Rightarrow> (Inl TransportError, s2)
      | (Reply search_status b, s2) \<Rightarrow>
          if search_status \<noteq> 200 then (Inr (ContactFailedSearch search_status), s2)
          else
     (case (case b of Results rs \<Rightarrow> rs | _ \<Rightarrow> []) of
        [] \<Rightarrow> (Inr ContactNotFound, s2)
      | r # _ \<Rightarrow>
     (case obj_get r ''id'' of
        Inl e \<Rightarrow> (Inl e, s2)
      | Inr contact_id \<Rightarrow>
          if \<not> py_truthy contact_id then (Inr ContactInvalidId, s2)
          else
     (case request net (PatchObject ''contacts'' contact_id properties) s2 of
        (NoReply, s3) \<Rightarrow> (Inl TransportError, s3)
      | (Reply update_status _, s3) \<Rightarrow>
          if update_status = 200 then (Inr ContactUpdated, s3)
          else (Inr (ContactFailedUpdate update_status), s3))))))"

text \<open>
  The loop over \<^verbatim>\<open>metafields.keys()\<close> in \<^verbatim>\<open>sync_custom_attributes\<close>: after each creation
  call, whatever its status, the property set is fetched again and the next key is
  checked against the new set. The result is the last set fetched.
\<close>

fun ensure_metafield_properties ::
  "'w net \<Rightarrow> string list \<Rightarrow> string list \<Rightarrow> 'w st \<Rightarrow> (exn + string list) \<times> 'w st" where
  "ensure_metafield_properties net [] hubspot_props s = (Inr hubspot_props, s)"
| "ensure_metafield_properties net (key # rest) hubspot_props s =
     (if key \<in> set hubspot_props then ensure_metafield_properties net rest hubspot_props s
      else (case create_hubspot_property_contacts net key key s of
              (Inl e, s1) \<Rightarrow> (Inl e, s1)
            | (Inr status_code, s1) \<Rightarrow>
                (case fetch_hubspot_properties net ''contacts'' s1 of
                   (Inl e, s2) \<Rightarrow> (Inl e, s2)
                 | (Inr hubspot_props', s2) \<Rightarrow>
                     ensure_metafield_properties net rest hubspot_props' s2)))"

text \<open>\<^verbatim>\<open>x or ""\<close>.\<close>

definition or_empty :: "json \<Rightarrow> json" where
  "or_empty x = (if py_truthy x then x else JStr [])"

text \<open>The payload built for one customer.\<close>

definition contact_properties :: "json \<Rightarrow> json \<Rightarrow> json \<Rightarrow> json \<Rightarrow> props \<Rightarrow> props" where
  "contact_properties email firstname lastname phone metafields =
     (let base = [(''email'', email), (''firstname'', or_empty firstname),
                  (''lastname'', or_empty lastname)];
          with_phone = (if py_truthy phone then AList.update ''phone'' phone base else base)
      in fold (\<lambda>kv. AList.update (fst kv) (snd kv)) metafields with_phone)"

text \<open>
  The loop over the customers. Per customer the result is \<^const>\<open>None\<close> when the customer
  is skipped for want of an email, and what \<^verbatim>\<open>create_or_update_hubspot_contact\<close> returned
  otherwise. The property set is carried from one customer to the next.
\<close>

fun sync_customers ::
  "'w net \<Rightarrow> json list \<Rightarrow> string list \<Rightarrow> 'w st \<Rightarrow> (exn + contact_result option list) \<times> 'w st" where
  "sync_customers net [] hubspot_props s = (Inr [], s)"
| "sync_customers net (cust # rest) hubspot_props s =
     (case cust of
        JDict kvs \<Rightarrow>
          (let email = dict_get kvs ''email'' in
           if \<not> py_truthy email then
             (case sync_customers net rest hubspot_props s of
                (Inl e, s') \<Rightarrow> (Inl e, s')
              | (Inr outs, s') \<Rightarrow> (Inr (None # outs), s'))
           else
             (case get_customer_metafields net (dict_get kvs ''id'') s of
                (Inl e, s1) \<Rightarrow> (Inl e, s1)
              | (Inr metafields, s1) \<Rightarrow>
             (case ensure_metafield_properties net (map fst metafields) hubspot_props s1 of
                (Inl e, s2) \<Rightarrow> (Inl e, s2)
              | (Inr hubspot_props', s2) \<Rightarrow>
             (case create_or_update_hubspot_contact net email
                     (contact_properties email (dict_get kvs ''first_name'')
                        (dict_get kvs ''last_name'') (dict_get kvs ''phone'') metafields) s2 of
                (Inl e, s3) \<Rightarrow> (Inl e, s3)
              | (Inr result, s3) \<Rightarrow>
             (case sync_customers net rest hubspot_props' s3 of
                (Inl e, s4) \<Rightarrow> (Inl e, s4)
              | (Inr outs, s4) \<Rightarrow> (Inr (Some result # outs), s4))))))
      | _ \<Rightarrow> (Inl AttributeError, s))"

definition sync_custom_attributes ::
  "'w net \<Rightarrow> 'w st \<Rightarrow> (exn + contact_result option list) \<times> 'w st" where
  "sync_custom_attributes net s =
     (case get_shopify_customers net s of
        (Inl e, s1) \<Rightarrow> (Inl e, s1)
      | (Inr customers, s1) \<Rightarrow>
          if customers = [] then (Inr [], s1)
          else (case fetch_hubspot_properties net ''contacts'' s1 of
                  (Inl e, s2) \<Rightarrow> (Inl e, s2)
                | (Inr hubspot_props, s2) \<Rightarrow> sync_customers net customers hubspot_props s2))"

section \<open>A reference source and destination\<close>

text \<open>
  The two HTTP services are outside the repository. To run the program, the following
  state machine answers its requests the way the interfaces are described: the source
  lists records and metafields; the destination lists property names, answers a property
  creation with 201, or with 409 when the name exists, searches by exact match on one
  property (ten results unless a limit is given), creates an object under a fresh id and
  merges an update into the object with the given id. Two switches cover what the
  program must cope with: \<open>hub_search_status\<close> is the status every search answers with
  (the results come only with 200), and \<open>hub_unique\<close> names, per object path, a property
  the destination keeps unique by answering 409 to a create that repeats a value.
\<close>

record hub =
  shop_records :: "string \<Rightarrow> json list"
  shop_metafields :: "string \<Rightarrow> json \<Rightarrow> metafield list"
  hub_properties :: "string \<Rightarrow> string list"
  hub_objects :: "string \<Rightarrow> (int \<times> props) list"
  hub_next_id :: int
  hub_unique :: "string \<Rightarrow> string option"
  hub_search_status :: nat

definition hub_result :: "int \<times> props \<Rightarrow> json" where
  "hub_result rec = JDict [(''id'', JInt (fst rec)), (''properties'', JDict (snd rec))]"

definition hub_matches :: "hub \<Rightarrow> string \<Rightarrow> string \<Rightarrow> json \<Rightarrow> (int \<times> props) list" where
  "hub_matches w obj field v = filter (\<lambda>rec. map_of (snd rec) field = Some v) (hub_objects w obj)"

definition hub_duplicate :: "hub \<Rightarrow> string \<Rightarrow> props \<Rightarrow> bool" where
  "hub_duplicate w obj p =
     (case hub_unique w obj of
        None \<Rightarrow> False
      | Some u \<Rightarrow> (case map_of p u of None \<Rightarrow> False | Some v \<Rightarrow> hub_matches w obj u v \<noteq> []))"

definition hub_merge :: "props \<Rightarrow> props \<Rightarrow> props" where
  "hub_merge old new = fold (\<lambda>kv. AList.update (fst kv) (snd kv)) new old"

fun hub_net :: "hub net" where
  "hub_net (GetShopify endpoint) w = (Reply 200 (Records (shop_records w endpoint)), w)"
| "hub_net (GetMetafields obj i) w = (Reply 200 (Metafields (shop_metafields w obj i)), w)"
| "hub_net (GetProperties obj) w = (Reply 200 (Names (hub_properties w obj)), w)"
| "hub_net (PostProperty obj name grp) w =
     (if name \<in> set (hub_properties w obj) then (Reply 409 NoBody, w)
      else (Reply 201 NoBody,
            w\<lparr>hub_properties := (hub_properties w)(obj := hub_properties w obj @ [name])\<rparr>))"
| "hub_net (PostSearch obj field v limit) w =
     (if hub_search_status w \<noteq> 200 then (Reply (hub_search_status w) NoBody, w)
      else (Reply 200
              (Results (map hub_result
                 (take (case limit of None \<Rightarrow> 10 | Some n \<Rightarrow> n) (hub_matches w obj field v)))),
            w))"
| "hub_net (PatchObject obj i p) w =
     (case i of
        JInt n \<Rightarrow>
          if n \<in> fst ` set (hub_objects w obj)
          then (Reply 200 NoBody,
                w\<lparr>hub_objects := (hub_objects w)
                     (obj := map (\<lambda>rec. if fst rec = n then (n, hub_merge (snd rec) p) else rec)
                               (hub_objects w obj))\<rparr>)
          else (Reply 404 NoBody, w)
      | _ \<Rightarrow> (Reply 404 NoBody, w))"
| "hub_net (PostObject obj p) w =
     (if hub_duplicate w obj p then (Reply 409 NoBody, w)
      else (Reply 201 NoBody,
            w\<lparr>hub_objects := (hub_objects w)(obj := hub_objects w obj @ [(hub_next_id w, p)]),
              hub_next_id := hub_next_id w + 1\<rparr>))"


section \<open>Example configuration and data\<close>

text \<open>
  One object type, customers synchronized to contacts and matched by email, and a source
  with the customer of the specification's scenarios: id 1, email \<^verbatim>\<open>a@x.com\<close> and the
  dynamic attribute \<^verbatim>\<open>vip = "true"\<close>. The destination starts empty.
\<close>

definition customer_config :: obj_config where
  "customer_config =
     \<lparr>shopify_endpoint = ''customers.json'', shopify_key = ''customers'',
      hubspot_object = ''contact'', unique_field = ''email'',
      property_group = ''contactinformation'',
      field_mapping = [(''email'', ''email'')], allowed_values = []\<rparr>"

definition customer_a :: json where
  "customer_a = JDict [(''id'', JInt 1), (''email'', JStr ''a@x.com'')]"

definition scenario_hub :: hub where
  "scenario_hub =
     \<lparr>shop_records = (\<lambda>endpoint. if endpoint = ''customers.json'' then [customer_a] else []),
      shop_metafields = (\<lambda>obj i. if obj = ''customers'' \<and> i = JInt 1
                                   then [\<lparr>meta_key = Some ''vip'', meta_value = JStr ''true''\<rparr>]
                                   else []),
      hub_properties = (\<lambda>obj. []),
      hub_objects = (\<lambda>obj. []),
      hub_next_id = 1,
      hub_unique = (\<lambda>obj. None),
      hub_search_status = 200\<rparr>"

text \<open>
  The same destination after the customer was stored as contact 1 (by any earlier run),
  once answering searches normally and once answering every search with status 500;
  and a destination that keeps the email of a contact unique.
\<close>

definition stored_hub :: hub where
  "stored_hub =
     scenario_hub
       \<lparr>hub_objects := (\<lambda>obj. if obj = ''contacts'' then [(1, [(''email'', JStr ''a@x.com'')])]
                               else []),
        hub_next_id := 2\<rparr>"

definition failing_search_hub :: hub where
  "failing_search_hub = stored_hub\<lparr>hub_search_status := 500\<rparr>"

definition unique_email_hub :: hub where
  "unique_email_hub =
     stored_hub\<lparr>hub_unique := (\<lambda>obj. if obj = ''contacts'' then Some ''email'' else None)\<rparr>"

text \<open>
  A second customer and an order, a configuration entry for orders, and a source that
  lists both customers and the order.
\<close>

definition customer_b :: json where
  "customer_b = JDict [(''id'', JInt 2), (''email'', JStr ''b@x.com'')]"

definition order_1 :: json where
  "order_1 = JDict [(''id'', JInt 7), (''name'', JStr ''#1001'')]"

definition order_config :: obj_config where
  "order_config =
     \<lparr>shopify_endpoint = ''orders.json'', shopify_key = ''orders'',
      hubspot_object = ''deal'', unique_field = ''dealname'',
      property_group = ''dealinformation'',
      field_mapping = [(''name'', ''dealname'')], allowed_values = []\<rparr>"

definition two_type_hub :: hub where
  "two_type_hub =
     scenario_hub
       \<lparr>shop_records := (\<lambda>endpoint. if endpoint = ''customers.json'' then [customer_a, customer_b]
                                     else if endpoint = ''orders.json'' then [order_1] else [])\<rparr>"

text \<open>
  A transport in which the requests selected by \<open>bad\<close> time out (the client raises) and
  every other request reaches the reference destination.
\<close>

definition failing_net :: "(call \<Rightarrow> bool) \<Rightarrow> hub net" where
  "failing_net bad c w = (if bad c then (NoReply, w) else hub_net c w)"

text \<open>A transport in which every request is answered with the same status and no body.\<close>

definition status_net :: "nat \<Rightarrow> hub net" where
  "status_net status c w = (Reply status NoBody, w)"

text \<open>A customer whose mapped field \<^verbatim>\<open>default_address\<close> is a nested object.\<close>

definition customer_c :: json where
  "customer_c =
     JDict [(''id'', JInt 3), (''email'', JStr ''c@x.com''),
            (''default_address'', JDict [(''city'', JStr ''Pune'')])]"

definition address_config :: obj_config where
  "address_config =
     customer_config\<lparr>field_mapping := [(''email'', ''email''), (''default_address'', ''address'')]\<rparr>"

section \<open>Verified properties\<close>

subsection \<open>Path resolution\<close>

lemma walk_keys_returns: "\<exists>v. walk_keys data keys = Inr v"
  by (induction data keys rule: walk_keys.induct) (auto split: sum.splits)

lemma split_dot_not_Nil: "split_dot s \<noteq> []"
  by (induction s) (auto split: list.splits)

lemma split_dot_segment: "CHR ''.'' \<notin> set key \<Longrightarrow> split_dot key = [key]"
  by (induction key) auto

lemma split_dot_append: "split_dot (p @ CHR ''.'' # q) = split_dot p @ split_dot q"
proof (induction p)
  case Nil
  show ?case by simp
next
  case (Cons c p)
  obtain w ws where "split_dot p = w # ws"
    using split_dot_not_Nil [of p] by (cases "split_dot p") auto
  with Cons show ?case by simp
qed

lemma walk_keys_JNull: "walk_keys JNull keys = Inr JNull"
  by (cases keys) simp_all

lemma walk_keys_append:
  "walk_keys data (ks @ ks') =
     (case walk_keys data ks of Inl e \<Rightarrow> Inl e | Inr v \<Rightarrow> walk_keys v ks')"
  by (induction data ks rule: walk_keys.induct)
     (auto simp: walk_keys_JNull split: sum.splits)

lemma get_nested_value_dot:
  "get_nested_value data (p @ CHR ''.'' # q) =
     (case get_nested_value data p of Inl e \<Rightarrow> Inl e | Inr v \<Rightarrow> get_nested_value v q)"
  by (simp add: get_nested_value_def split_dot_append walk_keys_append split: sum.splits)

lemma split_dot_at_segment:
  assumes "CHR ''.'' \<notin> set key" and "path = key \<or> (\<exists>q. path = key @ CHR ''.'' # q)"
  shows "\<exists>keys. split_dot path = key # keys"
  using assms by (auto simp: split_dot_segment split_dot_append)

lemma walk_keys_scalar:
  "(\<forall>ys. d \<noteq> JList ys) \<Longrightarrow> (\<forall>ps. d \<noteq> JDict ps) \<Longrightarrow> keys \<noteq> [] \<Longrightarrow>
   walk_keys d keys = Inr JNull"
  by (cases d; cases keys) simp_all

lemma py_int_x: "py_int ''x'' = Inl ValueError" by code_simp
lemma py_int_5: "py_int ''5'' = Inr 5" by code_simp
lemma py_int_nbsp_1: "py_int [CHR 0xA0, CHR ''1''] = Inr 1" by code_simp
lemma py_int_minus_1: "py_int ''-1'' = Inr (- 1)" by code_simp

text \<open>
  C3. \<^verbatim>\<open>get_nested_value\<close> is total: for every data value and every path it returns a
  value and never raises. Resolving \<open>p.q\<close> is resolving \<open>q\<close> in what \<open>p\<close> resolves to, so
  the cases below apply at any depth of the path. At a segment without a dot, whether
  it ends the path or more segments follow, the result is \<^verbatim>\<open>None\<close> when the data is a
  dict without that key, when the data is a list and the segment is not an integer or
  is an index out of range, and when the data is a scalar; once \<^verbatim>\<open>None\<close> is reached, every
  further segment gives \<^verbatim>\<open>None\<close>. A key that is present and an index in range give the
  element.
\<close>

theorem get_nested_value_total:
  "(\<exists>v. get_nested_value data path = Inr v)
   \<and> get_nested_value data (p @ CHR ''.'' # q) =
       (case get_nested_value data p of Inl e \<Rightarrow> Inl e | Inr v \<Rightarrow> get_nested_value v q)
   \<and> (CHR ''.'' \<notin> set key \<and> (path = key \<or> (\<exists>q. path = key @ CHR ''.'' # q))
        \<and> map_of kvs key = None
      \<longrightarrow> get_nested_value (JDict kvs) path = Inr JNull)
   \<and> (CHR ''.'' \<notin> set key \<and> (path = key \<or> (\<exists>q. path = key @ CHR ''.'' # q))
        \<and> py_int key = Inl e
      \<longrightarrow> get_nested_value (JList xs) path = Inr JNull)
   \<and> (CHR ''.'' \<notin> set key \<and> (path = key \<or> (\<exists>q. path = key @ CHR ''.'' # q))
        \<and> py_int key = Inr i \<and> (i < - int (length xs) \<or> int (length xs) \<le> i)
      \<longrightarrow> get_nested_value (JList xs) path = Inr JNull)
   \<and> ((\<forall>ys. d \<noteq> JList ys) \<and> (\<forall>ps. d \<noteq> JDict ps)
      \<longrightarrow> get_nested_value d path = Inr JNull)
   \<and> (get_nested_value data p = Inr v \<and> get_nested_value v q = Inr JNull
      \<longrightarrow> get_nested_value data (p @ CHR ''.'' # q) = Inr JNull)
   \<and> (CHR ''.'' \<notin> set key \<and> map_of kvs key = Some v
      \<longrightarrow> get_nested_value (JDict kvs) key = Inr v)
   \<and> (CHR ''.'' \<notin> set key \<and> py_int key = Inr i
        \<and> - int (length xs) \<le> i \<and> i < int (length xs)
      \<longrightarrow> get_nested_value (JList xs) key = list_getitem xs i
          \<and> (\<exists>x. list_getitem xs i = Inr x))"
proof (intro conjI impI)
  show "\<exists>v. get_nested_value data path = Inr v"
    unfolding get_nested_value_def by (rule walk_keys_returns)
next
  show "get_nested_value data (p @ CHR ''.'' # q) =
       (case get_nested_value data p of Inl e \<Rightarrow> Inl e | Inr v \<Rightarrow> get_nested_value v q)"
    by (rule get_nested_value_dot)
next
  assume a: "CHR ''.'' \<notin> set key \<and> (path = key \<or> (\<exists>q. path = key @ CHR ''.'' # q))
        \<and> map_of kvs key = None"
  then obtain keys where "split_dot path = key # keys"
    using split_dot_at_segment by blast
  with a show "get_nested_value (JDict kvs) path = Inr JNull"
    by (simp add: get_nested_value_def dict_get_def walk_keys_JNull)
next
  assume a: "CHR ''.'' \<notin> set key \<and> (path = key \<or> (\<exists>q. path = key @ CHR ''.'' # q))
        \<and> py_int key = Inl e"
  then obtain keys where "split_dot path = key # keys"
    using split_dot_at_segment by blast
  with a show "get_nested_value (JList xs) path = Inr JNull"
    by (simp add: get_nested_value_def list_item_at_key_def)
next
  assume a: "CHR ''.'' \<notin> set key \<and> (path = key \<or> (\<exists>q. path = key @ CHR ''.'' # q))
        \<and> py_int key = Inr i \<and> (i < - int (length xs) \<or> int (length xs) \<le> i)"
  then obtain keys where "split_dot path = key # keys"
    using split_dot_at_segment by blast
  with a show "get_nested_value (JList xs) path = Inr JNull"
    by (auto simp: get_nested_value_def list_item_at_key_def list_getitem_def)
next
  assume "(\<forall>ys. d \<noteq> JList ys) \<and> (\<forall>ps. d \<noteq> JDict ps)"
  then show "get_nested_value d path = Inr JNull"
    by (simp add: get_nested_value_def walk_keys_scalar split_dot_not_Nil)
next
  assume "get_nested_value data p = Inr v \<and> get_nested_value v q = Inr JNull"
  then show "get_nested_value data (p @ CHR ''.'' # q) = Inr JNull"
    by (simp add: get_nested_value_dot)
next
  assume "CHR ''.'' \<notin> set key \<and> map_of kvs key = Some v"
  then show "get_nested_value (JDict kvs) key = Inr v"
    by (simp add: get_nested_value_def split_dot_segment dict_get_def)
next
  assume a: "CHR ''.'' \<notin> set key \<and> py_int key = Inr i
        \<and> - int (length xs) \<le> i \<and> i < int (length xs)"
  then have ok: "\<exists>x. list_getitem xs i = Inr x"
    by (auto simp: list_getitem_def)
  with a show "get_nested_value (JList xs) key = list_getitem xs i"
    by (auto simp: get_nested_value_def split_dot_segment list_item_at_key_def)
  from ok show "\<exists>x. list_getitem xs i = Inr x" .
qed

theorem get_nested_value_total_witness:
  "get_nested_value (JDict [(''id'', JInt 1)]) ''email.x'' = Inr JNull
   \<and> get_nested_value (JList [JStr ''a'']) ''x'' = Inr JNull
   \<and> get_nested_value (JList [JStr ''a'']) ''5.price'' = Inr JNull
   \<and> get_nested_value (JInt 3) ''0'' = Inr JNull
   \<and> get_nested_value (JDict [(''variants'', JList [JDict [(''price'', JStr ''9.5'')]])])
         (''variants.0.price'' @ CHR ''.'' # ''x'') = Inr JNull
   \<and> get_nested_value (JDict [(''id'', JInt 1)]) ''id'' = Inr (JInt 1)
   \<and> get_nested_value (JList [JStr ''a'', JStr ''b'']) [CHR 0xA0, CHR ''1''] = Inr (JStr ''b'')
   \<and> get_nested_value (JList [JStr ''a'', JStr ''b'']) ''-1'' = Inr (JStr ''b'')"
proof (intro conjI)
  show "get_nested_value (JDict [(''id'', JInt 1)]) ''email.x'' = Inr JNull"
    by (rule get_nested_value_total [where key = "''email''", THEN conjunct2, THEN conjunct2,
          THEN conjunct1, THEN mp]) simp
  show "get_nested_value (JList [JStr ''a'']) ''x'' = Inr JNull"
    by (rule get_nested_value_total [where key = "''x''" and e = ValueError,
          THEN conjunct2, THEN conjunct2, THEN conjunct2, THEN conjunct1, THEN mp])
       (simp add: py_int_x)
  show "get_nested_value (JList [JStr ''a'']) ''5.price'' = Inr JNull"
    by (rule get_nested_value_total [where key = "''5''" and i = 5,
          THEN conjunct2, THEN conjunct2, THEN conjunct2, THEN conjunct2, THEN conjunct1,
          THEN mp])
       (simp add: py_int_5)
  show "get_nested_value (JInt 3) ''0'' = Inr JNull"
    by (rule get_nested_value_total [THEN conjunct2, THEN conjunct2, THEN conjunct2,
          THEN conjunct2, THEN conjunct2, THEN conjunct1, THEN mp]) simp
  have reach: "get_nested_value (JDict [(''variants'', JList [JDict [(''price'', JStr ''9.5'')]])])
                 ''variants.0.price'' = Inr (JStr ''9.5'')
               \<and> get_nested_value (JStr ''9.5'') ''x'' = Inr JNull"
    by code_simp
  show "get_nested_value (JDict [(''variants'', JList [JDict [(''price'', JStr ''9.5'')]])])
         (''variants.0.price'' @ CHR ''.'' # ''x'') = Inr JNull"
    by (rule get_nested_value_total [THEN conjunct2, THEN conjunct2, THEN conjunct2,
          THEN conjunct2, THEN conjunct2, THEN conjunct2, THEN conjunct1, THEN mp, OF reach])
  show "get_nested_value (JDict [(''id'', JInt 1)]) ''id'' = Inr (JInt 1)"
    by (rule get_nested_value_total [THEN conjunct2, THEN conjunct2, THEN conjunct2,
          THEN conjunct2, THEN conjunct2, THEN conjunct2, THEN conjunct2, THEN conjunct1,
          THEN mp]) simp
  have h1: "CHR ''.'' \<notin> set [CHR 0xA0, CHR ''1''] \<and> py_int [CHR 0xA0, CHR ''1''] = Inr 1
        \<and> - int (length [JStr ''a'', JStr ''b'']) \<le> 1 \<and> 1 < int (length [JStr ''a'', JStr ''b''])"
    by (simp add: py_int_nbsp_1)
  from get_nested_value_total [THEN conjunct2, THEN conjunct2, THEN conjunct2,
          THEN conjunct2, THEN conjunct2, THEN conjunct2, THEN conjunct2, THEN conjunct2,
          THEN mp, OF h1]
  show "get_nested_value (JList [JStr ''a'', JStr ''b'']) [CHR 0xA0, CHR ''1''] = Inr (JStr ''b'')"
    by (simp add: list_getitem_def)
  have h2: "CHR ''.'' \<notin> set ''-1'' \<and> py_int ''-1'' = Inr (- 1)
        \<and> - int (length [JStr ''a'', JStr ''b'']) \<le> - 1 \<and> - 1 < int (length [JStr ''a'', JStr ''b''])"
    by (simp add: py_int_minus_1)
  from get_nested_value_total [THEN conjunct2, THEN conjunct2, THEN conjunct2,
          THEN conjunct2, THEN conjunct2, THEN conjunct2, THEN conjunct2, THEN conjunct2,
          THEN mp, OF h2]
  show "get_nested_value (JList [JStr ''a'', JStr ''b'']) ''-1'' = Inr (JStr ''b'')"
    by (simp add: list_getitem_def)
qed

subsection \<open>Allow-list normalization\<close>

lemma update_commute_present:
  "f \<noteq> g \<Longrightarrow> map_of m f = Some x \<Longrightarrow>
   AList.update f a (AList.update g b m) = AList.update g b (AList.update f a m)"
  by (induction m) (auto split: if_splits)

lemma map_of_apply_rule_other:
  "g \<noteq> f \<Longrightarrow> map_of (apply_rule m g r) f = map_of m f"
  by (simp add: apply_rule_def AList.update_conv' AList.delete_conv' split: option.splits)

lemma apply_rule_idem: "apply_rule (apply_rule m f r) f r = apply_rule m f r"
  by (cases "rule_default r")
     (auto simp: apply_rule_def AList.update_conv' AList.delete_conv' split: option.splits)

lemma apply_rule_commute:
  assumes "f \<noteq> g"
  shows "apply_rule (apply_rule m f r) g r' = apply_rule (apply_rule m g r') f r"
proof -
  have fg: "map_of (apply_rule m f r) g = map_of m g"
    using assms by (simp add: map_of_apply_rule_other)
  have gf: "map_of (apply_rule m g r') f = map_of m f"
    using assms by (simp add: map_of_apply_rule_other)
  show ?thesis
    using assms
    unfolding apply_rule_def [of "apply_rule m f r" g r'] apply_rule_def [of "apply_rule m g r'" f r] fg gf
    by (auto simp: apply_rule_def AList.delete_update AList.delete_twist
          update_commute_present split: option.splits)
qed

lemma apply_allowed_values_commute:
  "f \<notin> fst ` set rest \<Longrightarrow>
   apply_rule (apply_allowed_values m rest) f r = apply_allowed_values (apply_rule m f r) rest"
proof (induction rest arbitrary: m)
  case Nil
  then show ?case by simp
next
  case (Cons p rest)
  obtain g r' where p: "p = (g, r')" by (cases p)
  with Cons.prems have ne: "g \<noteq> f" and notin: "f \<notin> fst ` set rest" by auto
  have "apply_rule (apply_allowed_values m (p # rest)) f r
        = apply_allowed_values (apply_rule (apply_rule m g r') f r) rest"
    using Cons.IH [OF notin] by (simp add: p)
  also have "apply_rule (apply_rule m g r') f r = apply_rule (apply_rule m f r) g r'"
    using ne by (rule apply_rule_commute)
  finally show ?case by (simp add: p)
qed

text \<open>
  C8. The allow-list pass is idempotent: normalizing an already normalized property map
  with the same rules (a dict, so its keys are distinct) changes nothing.
\<close>

theorem apply_allowed_values_idempotent:
  "distinct (map fst rules) \<Longrightarrow>
   apply_allowed_values (apply_allowed_values properties rules) rules
     = apply_allowed_values properties rules"
proof (induction rules arbitrary: properties)
  case Nil
  then show ?case by simp
next
  case (Cons p rest)
  obtain f r where p: "p = (f, r)" by (cases p)
  with Cons.prems have notin: "f \<notin> fst ` set rest" and d: "distinct (map fst rest)" by auto
  let ?m = "apply_rule properties f r"
  have "apply_allowed_values (apply_allowed_values properties (p # rest)) (p # rest)
        = apply_allowed_values (apply_rule (apply_allowed_values ?m rest) f r) rest"
    by (simp add: p)
  also have "apply_rule (apply_allowed_values ?m rest) f r
             = apply_allowed_values (apply_rule ?m f r) rest"
    using notin by (rule apply_allowed_values_commute)
  also have "apply_rule ?m f r = ?m" by (rule apply_rule_idem)
  also have "apply_allowed_values (apply_allowed_values ?m rest) rest = apply_allowed_values ?m rest"
    using d by (rule Cons.IH)
  finally show ?case by (simp add: p)
qed

theorem apply_allowed_values_idempotent_witness:
  "distinct (map fst [(''status'', \<lparr>rule_allowed = [JStr ''open'', JStr ''closed''],
                                    rule_default = JStr ''open''\<rparr>)])
   \<and> apply_allowed_values
         (apply_allowed_values [(''email'', JStr ''a@x.com''), (''status'', JStr ''archived'')]
            [(''status'', \<lparr>rule_allowed = [JStr ''open'', JStr ''closed''],
                           rule_default = JStr ''open''\<rparr>)])
         [(''status'', \<lparr>rule_allowed = [JStr ''open'', JStr ''closed''],
                        rule_default = JStr ''open''\<rparr>)]
       = [(''email'', JStr ''a@x.com''), (''status'', JStr ''open'')]"
  using apply_allowed_values_idempotent
    [of "[(''status'', \<lparr>rule_allowed = [JStr ''open'', JStr ''closed''],
                         rule_default = JStr ''open''\<rparr>)]"
        "[(''email'', JStr ''a@x.com''), (''status'', JStr ''archived'')]"]
  by (simp add: apply_rule_def py_in_def)

lemma map_of_apply_allowed_values_other:
  "f \<notin> fst ` set rules \<Longrightarrow> map_of (apply_allowed_values m rules) f = map_of m f"
  by (induction rules arbitrary: m) (auto simp: map_of_apply_rule_other)

lemma map_of_apply_rule_same:
  "map_of (apply_rule m f r) f =
     (case map_of m f of
        None \<Rightarrow> None
      | Some v \<Rightarrow>
          if v \<noteq> JNull \<and> rule_allowed r \<noteq> [] \<and> \<not> py_in v (rule_allowed r)
          then (if py_truthy (rule_default r) then Some (rule_default r) else None)
          else Some v)"
  by (auto simp: apply_rule_def AList.update_conv' AList.delete_conv' split: option.splits)

text \<open>
  C4 (as amended). In step 3 of \<^verbatim>\<open>SyncManager.send_to_hubspot\<close> of
  \<^verbatim>\<open>05_dynamic_fileds/sync_manager.py\<close>, for a rule of the rule set, the normalized map
  holds for the rule's field:
  nothing when the field was absent; the old value when that value is \<^verbatim>\<open>None\<close>, when the
  allowed list is empty or when the value is in the allowed list; otherwise the rule's
  default when the default is truthy, and nothing (the field is removed) when it is not.
\<close>

theorem allowed_values_enforced:
  "distinct (map fst rules) \<Longrightarrow> (field, r) \<in> set rules \<Longrightarrow>
   map_of (apply_allowed_values properties rules) field =
     (case map_of properties field of
        None \<Rightarrow> None
      | Some v \<Rightarrow>
          if v \<noteq> JNull \<and> rule_allowed r \<noteq> [] \<and> \<not> py_in v (rule_allowed r)
          then (if py_truthy (rule_default r) then Some (rule_default r) else None)
          else Some v)"
proof (induction rules arbitrary: properties)
  case Nil
  then show ?case by simp
next
  case (Cons p rest)
  obtain g r' where p: "p = (g, r')" by (cases p)
  with Cons.prems have notin: "g \<notin> fst ` set rest" and d: "distinct (map fst rest)" by auto
  show ?case
  proof (cases "(field, r) = (g, r')")
    case True
    then have same: "g = field" "r' = r" by simp_all
    show ?thesis
      using notin unfolding p same
      by (simp add: map_of_apply_allowed_values_other map_of_apply_rule_same)
  next
    case False
    with Cons.prems p have mem: "(field, r) \<in> set rest" by auto
    with notin have ne: "g \<noteq> field" by force
    show ?thesis
      using Cons.IH [OF d mem, of "apply_rule properties g r'"] ne
      by (simp add: p map_of_apply_rule_other)
  qed
qed

theorem allowed_values_enforced_witness:
  "distinct (map fst [(''status'', \<lparr>rule_allowed = [JStr ''open'', JStr ''closed''],
                                    rule_default = JStr ''open''\<rparr>)])
   \<and> (''status'', \<lparr>rule_allowed = [JStr ''open'', JStr ''closed''],
                     rule_default = JStr ''open''\<rparr>)
       \<in> set [(''status'', \<lparr>rule_allowed = [JStr ''open'', JStr ''closed''],
                               rule_default = JStr ''open''\<rparr>)]
   \<and> map_of (apply_allowed_values [(''status'', JStr ''archived'')]
                [(''status'', \<lparr>rule_allowed = [JStr ''open'', JStr ''closed''],
                               rule_default = JStr ''open''\<rparr>)]) ''status''
       = Some (JStr ''open'')"
  using allowed_values_enforced
    [of "[(''status'', \<lparr>rule_allowed = [JStr ''open'', JStr ''closed''],
                         rule_default = JStr ''open''\<rparr>)]"
        "''status''"
        "\<lparr>rule_allowed = [JStr ''open'', JStr ''closed''], rule_default = JStr ''open''\<rparr>"
        "[(''status'', JStr ''archived'')]"]
  by (simp add: py_in_def)

text \<open>
  C4 as stated fails in \<^verbatim>\<open>05_dynamic_fileds/sync_manager.py\<close>: a field whose value is \<^verbatim>\<open>None\<close> stays in the map although
  \<^verbatim>\<open>None\<close> is not allowed and the rule has a default; a value stays under a rule whose
  allowed list is empty; and a value that is not allowed is removed, not replaced, when
  the rule's default is \<^verbatim>\<open>False\<close>.
\<close>

theorem allowed_values_counterexample:
  "apply_allowed_values
     [(''status'', JNull), (''tier'', JStr ''x''), (''flag'', JStr ''maybe'')]
     [(''status'', \<lparr>rule_allowed = [JStr ''open'', JStr ''closed''], rule_default = JStr ''open''\<rparr>),
      (''tier'', \<lparr>rule_allowed = [], rule_default = JStr ''basic''\<rparr>),
      (''flag'', \<lparr>rule_allowed = [JBool True], rule_default = JBool False\<rparr>)]
   = [(''status'', JNull), (''tier'', JStr ''x'')]
   \<and> \<not> py_in JNull [JStr ''open'', JStr ''closed'']
   \<and> \<not> py_in (JStr ''x'') []"
  by (simp add: apply_rule_def py_in_def)

subsection \<open>Requests sent for one record\<close>

lemmas run_defs =
  send_to_hubspot_def get_nested_value_def dict_get_def obj_get_def fetch_metafields_def
  request_def get_hubspot_properties_def is_success_def create_hubspot_property_def
  search_then_write_def hub_matches_def hub_duplicate_def result_id_def hub_result_def
  fetch_shopify_data_def record_properties_def

lemmas example_defs =
  customer_config_def customer_a_def scenario_hub_def stored_hub_def failing_search_hub_def
  unique_email_hub_def customer_b_def order_1_def order_config_def two_type_hub_def
  failing_net_def status_net_def customer_c_def address_config_def

lemma request_trace: "request net c s = (r, s') \<Longrightarrow> snd s' = snd s @ [c]"
  by (auto simp: request_def split: prod.splits)

lemma create_hubspot_property_trace:
  "create_hubspot_property net obj name grp s = (r, s') \<Longrightarrow>
   snd s' = snd s @ [PostProperty (obj @ ''s'') name grp]"
  by (auto simp: create_hubspot_property_def split: prod.splits reply.splits if_splits
      dest: request_trace)

lemma create_missing_calls:
  "create_missing net obj grp cur names s = (r, s') \<Longrightarrow>
   \<exists>cs. snd s' = snd s @ cs \<and> (\<forall>c\<in>set cs. \<exists>name. c = PostProperty (obj @ ''s'') name grp)"
proof (induction names arbitrary: s)
  case Nil
  then show ?case by simp
next
  case (Cons f names)
  show ?case
  proof (cases "f \<in> set cur")
    case True
    with Cons show ?thesis by simp
  next
    case False
    obtain r1 s1 where c: "create_hubspot_property net obj f grp s = (r1, s1)"
      by (cases "create_hubspot_property net obj f grp s")
    then have t1: "snd s1 = snd s @ [PostProperty (obj @ ''s'') f grp]"
      by (rule create_hubspot_property_trace)
    show ?thesis
    proof (cases r1)
      case (Inl e)
      with Cons.prems False c t1 show ?thesis by auto
    next
      case (Inr x)
      with Cons.prems False c have "create_missing net obj grp cur names s1 = (r, s')" by simp
      from Cons.IH [OF this] obtain cs where
        "snd s' = snd s1 @ cs" "\<forall>c\<in>set cs. \<exists>name. c = PostProperty (obj @ ''s'') name grp"
        by blast
      with t1 show ?thesis
        by (intro exI [of _ "PostProperty (obj @ ''s'') f grp # cs"]) simp
    qed
  qed
qed

lemma fetch_metafields_trace:
  "fetch_metafields net k i s = (r, s') \<Longrightarrow> snd s' = snd s @ [GetMetafields k i]"
  by (auto simp: fetch_metafields_def split: prod.splits reply.splits if_splits
      dest: request_trace)

lemma get_hubspot_properties_trace:
  "get_hubspot_properties net obj s = (r, s') \<Longrightarrow> snd s' = snd s @ [GetProperties (obj @ ''s'')]"
  by (auto simp: get_hubspot_properties_def split: prod.splits reply.splits if_splits
      dest: request_trace)

lemma create_missing_requests:
  "create_missing net obj grp cur names s = (Inr u, s') \<Longrightarrow>
   snd s' = snd s @ map (\<lambda>name. PostProperty (obj @ ''s'') name grp)
                        (filter (\<lambda>name. name \<notin> set cur) names)"
proof (induction names arbitrary: s)
  case Nil
  then show ?case by simp
next
  case (Cons f names)
  show ?case
  proof (cases "f \<in> set cur")
    case True
    with Cons show ?thesis by simp
  next
    case False
    obtain r1 s1 where c: "create_hubspot_property net obj f grp s = (r1, s1)"
      by (cases "create_hubspot_property net obj f grp s")
    note t1 = create_hubspot_property_trace [OF c]
    from Cons.prems False c obtain x where "r1 = Inr x"
      by (cases r1) auto
    with Cons.prems False c have "create_missing net obj grp cur names s1 = (Inr u, s')"
      by simp
    from Cons.IH [OF this] t1 False show ?thesis by simp
  qed
qed

lemma create_missing_requests_prefix:
  "create_missing net obj grp cur names s = (r, s') \<Longrightarrow>
   \<exists>k. snd s' = snd s @ take k (map (\<lambda>name. PostProperty (obj @ ''s'') name grp)
                                   (filter (\<lambda>name. name \<notin> set cur) names))"
proof (induction names arbitrary: s)
  case Nil
  then show ?case by simp
next
  case (Cons f names)
  show ?case
  proof (cases "f \<in> set cur")
    case True
    with Cons show ?thesis by simp
  next
    case False
    obtain r1 s1 where c: "create_hubspot_property net obj f grp s = (r1, s1)"
      by (cases "create_hubspot_property net obj f grp s")
    note t1 = create_hubspot_property_trace [OF c]
    show ?thesis
    proof (cases r1)
      case (Inl e)
      with Cons.prems False c t1 have "snd s' = snd s @ [PostProperty (obj @ ''s'') f grp]"
        by auto
      with False show ?thesis by (intro exI [of _ 1]) simp
    next
      case (Inr x)
      with Cons.prems False c have "create_missing net obj grp cur names s1 = (r, s')"
        by simp
      from Cons.IH [OF this] obtain k where
        "snd s' = snd s1 @ take k (map (\<lambda>name. PostProperty (obj @ ''s'') name grp)
                                   (filter (\<lambda>name. name \<notin> set cur) names))"
        by blast
      with t1 False show ?thesis by (intro exI [of _ "Suc k"]) simp
    qed
  qed
qed

text \<open>
  C2 (as amended). When the property map of a record has an empty or missing value for
  the unique field and no request raises, \<^verbatim>\<open>send_to_hubspot\<close> prints the skip message
  and has sent exactly: the metafield fetch, the property listing, and then one property
  creation for each name of the property map that is missing from that listing, in the
  order of the map. No search, create or update request is sent.
\<close>

theorem unique_check_follows_reconciliation:
  assumes "obj_get shopify_obj ''id'' = Inr shopify_id"
      and "fetch_metafields net (shopify_key config) shopify_id s = (Inr metafields, s1)"
      and "record_properties config shopify_obj metafields = Inr properties"
      and "\<not> py_truthy (dict_get properties (unique_field config))"
      and "send_to_hubspot net config shopify_obj s = (Inr out, s')"
  shows "out = Skipped \<and>
         (\<exists>current s2.
            get_hubspot_properties net (hubspot_object config) s1 = (Inr current, s2)
          \<and> snd s' = snd s @ GetMetafields (shopify_key config) shopify_id
                   # GetProperties (hubspot_object config @ ''s'')
                   # map (\<lambda>name. PostProperty (hubspot_object config @ ''s'') name
                                   (property_group config))
                         (filter (\<lambda>name. name \<notin> set current) (map fst properties)))"
proof -
  from assms(3) obtain p1 p2 where
    p1: "map_fields shopify_obj (field_mapping config) [] = Inr p1" and
    p2: "add_metafields metafields p1 = Inr p2" and
    props: "properties = apply_allowed_values p2 (allowed_values config)"
    by (auto simp: record_properties_def split: sum.splits)
  have t1: "snd s1 = snd s @ [GetMetafields (shopify_key config) shopify_id]"
    using assms(2) by (rule fetch_metafields_trace)
  obtain r2 s2 where g: "get_hubspot_properties net (hubspot_object config) s1 = (r2, s2)"
    by (cases "get_hubspot_properties net (hubspot_object config) s1")
  then have t2: "snd s2 = snd s1 @ [GetProperties (hubspot_object config @ ''s'')]"
    by (rule get_hubspot_properties_trace)
  from assms(5) g p1 p2 assms(1,2) obtain cur where r2: "r2 = Inr cur"
    by (cases r2) (auto simp: send_to_hubspot_def Let_def)
  obtain r3 s3 where c: "create_missing net (hubspot_object config) (property_group config)
      cur (map fst properties) s2 = (r3, s3)"
    by (cases "create_missing net (hubspot_object config) (property_group config)
      cur (map fst properties) s2")
  from assms(5) g p1 p2 assms(1,2,4) r2 c props have fin: "out = Skipped \<and> s' = s3 \<and> r3 = Inr ()"
    by (cases r3) (auto simp: send_to_hubspot_def Let_def)
  with c have "create_missing net (hubspot_object config) (property_group config)
      cur (map fst properties) s2 = (Inr (), s3)" by simp
  from create_missing_requests [OF this]
  have t3: "snd s3 = snd s2 @ map (\<lambda>name. PostProperty (hubspot_object config @ ''s'') name
                                   (property_group config))
                         (filter (\<lambda>name. name \<notin> set cur) (map fst properties))" .
  from fin t1 t2 t3 g r2 show ?thesis by auto
qed

text \<open>
  C2 as stated fails: for a customer without email the record is skipped, but only
  after three requests were sent for it (the unique field is checked in step 5, after
  the metafield fetch of step 2 and the property reconciliation of step 4).
\<close>

theorem skipped_record_requests:
  "fst (send_to_hubspot hub_net customer_config (JDict [(''id'', JInt 2)]) (scenario_hub, []))
     = Inr Skipped
   \<and> snd (snd (send_to_hubspot hub_net customer_config (JDict [(''id'', JInt 2)]) (scenario_hub, [])))
     = [GetMetafields ''customers'' (JInt 2), GetProperties ''contacts'',
        PostProperty ''contacts'' ''email'' ''contactinformation'']"
  by (simp add: run_defs example_defs)

theorem unique_check_follows_reconciliation_witness:
  "obj_get (JDict [(''id'', JInt 2)]) ''id'' = Inr (JInt 2)
   \<and> fst (fetch_metafields hub_net ''customers'' (JInt 2) (scenario_hub, [])) = Inr []
   \<and> record_properties customer_config (JDict [(''id'', JInt 2)]) [] = Inr [(''email'', JNull)]
   \<and> \<not> py_truthy (dict_get [(''email'', JNull)] ''email'')
   \<and> fst (send_to_hubspot hub_net customer_config (JDict [(''id'', JInt 2)]) (scenario_hub, []))
       = Inr Skipped
   \<and> (\<exists>current s2.
         get_hubspot_properties hub_net ''contact''
             (snd (fetch_metafields hub_net ''customers'' (JInt 2) (scenario_hub, [])))
           = (Inr current, s2)
       \<and> snd (snd (send_to_hubspot hub_net customer_config (JDict [(''id'', JInt 2)])
                       (scenario_hub, [])))
            = [] @ GetMetafields ''customers'' (JInt 2) # GetProperties ''contacts''
                 # map (\<lambda>name. PostProperty ''contacts'' name ''contactinformation'')
                       (filter (\<lambda>name. name \<notin> set current) (map fst [(''email'', JNull)])))"
proof -
  let ?obj = "JDict [(''id'', JInt 2)]"
  let ?s = "(scenario_hub, [] :: call list)"
  have h1: "obj_get ?obj ''id'' = Inr (JInt 2)"
    by (simp add: obj_get_def dict_get_def)
  have h2: "fetch_metafields hub_net (shopify_key customer_config) (JInt 2) ?s
            = (Inr [], snd (fetch_metafields hub_net ''customers'' (JInt 2) ?s))"
    by (simp add: run_defs example_defs)
  have h3: "record_properties customer_config ?obj [] = Inr [(''email'', JNull)]"
    by (simp add: run_defs example_defs)
  have h4: "\<not> py_truthy (dict_get [(''email'', JNull)] (unique_field customer_config))"
    by (simp add: dict_get_def customer_config_def)
  have h5: "send_to_hubspot hub_net customer_config ?obj ?s
            = (Inr Skipped, snd (send_to_hubspot hub_net customer_config ?obj ?s))"
    by (simp add: run_defs example_defs)
  have h2': "fst (fetch_metafields hub_net ''customers'' (JInt 2) ?s) = Inr []"
    by (simp add: run_defs example_defs)
  have h4': "\<not> py_truthy (dict_get [(''email'', JNull)] ''email'')"
    by (simp add: dict_get_def)
  have h5': "fst (send_to_hubspot hub_net customer_config ?obj ?s) = Inr Skipped"
    by (simp add: run_defs example_defs)
  have c: "\<exists>current s2.
         get_hubspot_properties hub_net ''contact''
             (snd (fetch_metafields hub_net ''customers'' (JInt 2) ?s))
           = (Inr current, s2)
       \<and> snd (snd (send_to_hubspot hub_net customer_config ?obj ?s))
            = [] @ GetMetafields ''customers'' (JInt 2) # GetProperties ''contacts''
                 # map (\<lambda>name. PostProperty ''contacts'' name ''contactinformation'')
                       (filter (\<lambda>name. name \<notin> set current) (map fst [(''email'', JNull)]))"
    using unique_check_follows_reconciliation [OF h1 h2 h3 h4 h5]
    by (simp add: customer_config_def)
  from h1 h2' h3 h4' h5' c show ?thesis by blast
qed

subsection \<open>Upsert: search, then update or create\<close>

lemma search_hit_updates:
  assumes "request net (PostSearch (obj @ ''s'') u (dict_get properties u) (Some 1)) s
             = (Reply 200 (Results (r # rs)), s1)"
      and "result_id r = Inr obj_id"
  shows "search_then_write net obj u properties s =
           (case request net (PatchObject (obj @ ''s'') obj_id properties) s1 of
              (NoReply, s2) \<Rightarrow> (Inl TransportError, s2)
            | (Reply st2 b2, s2) \<Rightarrow> (Inr Updated, s2))"
    and "snd (snd (search_then_write net obj u properties s)) =
           snd s @ [PostSearch (obj @ ''s'') u (dict_get properties u) (Some 1),
                    PatchObject (obj @ ''s'') obj_id properties]"
proof -
  show eq: "search_then_write net obj u properties s =
           (case request net (PatchObject (obj @ ''s'') obj_id properties) s1 of
              (NoReply, s2) \<Rightarrow> (Inl TransportError, s2)
            | (Reply st2 b2, s2) \<Rightarrow> (Inr Updated, s2))"
    using assms by (simp add: search_then_write_def)
  obtain r2 s2 where p: "request net (PatchObject (obj @ ''s'') obj_id properties) s1 = (r2, s2)"
    by (cases "request net (PatchObject (obj @ ''s'') obj_id properties) s1")
  from request_trace [OF assms(1)] request_trace [OF p]
  have "snd s2 = snd s @ [PostSearch (obj @ ''s'') u (dict_get properties u) (Some 1),
                    PatchObject (obj @ ''s'') obj_id properties]" by simp
  with eq p show "snd (snd (search_then_write net obj u properties s)) =
           snd s @ [PostSearch (obj @ ''s'') u (dict_get properties u) (Some 1),
                    PatchObject (obj @ ''s'') obj_id properties]"
    by (cases r2) simp_all
qed

lemma search_miss_creates:
  assumes "request net (PostSearch (obj @ ''s'') u (dict_get properties u) (Some 1)) s
             = (Reply status b, s1)"
      and "status \<noteq> 200 \<or> b = Results []"
  shows "search_then_write net obj u properties s =
           (case request net (PostObject (obj @ ''s'') properties) s1 of
              (NoReply, s2) \<Rightarrow> (Inl TransportError, s2)
            | (Reply st2 b2, s2) \<Rightarrow>
                (if st2 = 201 then (Inr Created, s2) else (Inr FailedCreate, s2)))"
  using assms by (auto simp: search_then_write_def)

lemma contact_requests:
  assumes "create_or_update_hubspot_contact net email properties s = (r, s')"
  shows "snd s' = snd s @ [PostObject ''contacts'' properties]
         \<or> snd s' = snd s @ [PostObject ''contacts'' properties,
                              PostSearch ''contacts'' ''email'' email None]
         \<or> (\<exists>i. snd s' = snd s @ [PostObject ''contacts'' properties,
                                   PostSearch ''contacts'' ''email'' email None,
                                   PatchObject ''contacts'' i properties])"
  using assms
  by (auto simp: create_or_update_hubspot_contact_def
      split: reply.splits prod.splits list.splits sum.splits if_splits
      dest!: request_trace)


lemma upsert_twice_on_hub:
  assumes "hub_search_status w = 200"
      and "map_of properties u = Some v"
      and "hub_matches w (obj @ ''s'') u v = []"
      and "\<not> hub_duplicate w (obj @ ''s'') properties"
  shows "\<exists>w1 w2.
           search_then_write hub_net obj u properties (w, t)
             = (Inr Created,
                (w1, t @ [PostSearch (obj @ ''s'') u v (Some 1), PostObject (obj @ ''s'') properties]))
         \<and> search_then_write hub_net obj u properties (w1, t')
             = (Inr Updated,
                (w2, t' @ [PostSearch (obj @ ''s'') u v (Some 1),
                           PatchObject (obj @ ''s'') (JInt (hub_next_id w)) properties]))"
proof -
  let ?w1 = "w\<lparr>hub_objects := (hub_objects w)(obj @ ''s'' := hub_objects w (obj @ ''s'') @ [(hub_next_id w, properties)]),
              hub_next_id := hub_next_id w + 1\<rparr>"
  have g: "dict_get properties u = v" using assms(2) by (simp add: dict_get_def)
  have first: "search_then_write hub_net obj u properties (w, t)
             = (Inr Created,
                (?w1, t @ [PostSearch (obj @ ''s'') u v (Some 1), PostObject (obj @ ''s'') properties]))"
    using assms by (simp add: search_then_write_def request_def g)
  have m1: "hub_matches ?w1 (obj @ ''s'') u v = [(hub_next_id w, properties)]"
    using assms(2,3) by (simp add: hub_matches_def)
  have "\<exists>w2. search_then_write hub_net obj u properties (?w1, t')
             = (Inr Updated,
                (w2, t' @ [PostSearch (obj @ ''s'') u v (Some 1),
                           PatchObject (obj @ ''s'') (JInt (hub_next_id w)) properties]))"
    using assms(1) m1
    by (simp add: search_then_write_def request_def g hub_result_def result_id_def)
  with first show ?thesis by blast
qed

lemma contact_twice_on_hub:
  assumes "hub_search_status w = 200"
      and "hub_unique w ''contacts'' = Some ''email''"
      and "map_of properties ''email'' = Some email"
      and "hub_matches w ''contacts'' ''email'' email = []"
      and "hub_next_id w \<noteq> 0"
  shows "\<exists>w1 w2.
           create_or_update_hubspot_contact hub_net email properties (w, t)
             = (Inr ContactCreated, (w1, t @ [PostObject ''contacts'' properties]))
         \<and> create_or_update_hubspot_contact hub_net email properties (w1, t')
             = (Inr ContactUpdated,
                (w2, t' @ [PostObject ''contacts'' properties,
                           PostSearch ''contacts'' ''email'' email None,
                           PatchObject ''contacts'' (JInt (hub_next_id w)) properties]))"
proof -
  let ?w1 = "w\<lparr>hub_objects := (hub_objects w)(''contacts'' := hub_objects w ''contacts'' @ [(hub_next_id w, properties)]),
              hub_next_id := hub_next_id w + 1\<rparr>"
  have first: "create_or_update_hubspot_contact hub_net email properties (w, t)
             = (Inr ContactCreated, (?w1, t @ [PostObject ''contacts'' properties]))"
    using assms by (simp add: create_or_update_hubspot_contact_def request_def hub_duplicate_def)
  have m1: "hub_matches ?w1 ''contacts'' ''email'' email = [(hub_next_id w, properties)]"
    using assms(3,4) by (simp add: hub_matches_def)
  have "\<exists>w2. create_or_update_hubspot_contact hub_net email properties (?w1, t')
             = (Inr ContactUpdated,
                (w2, t' @ [PostObject ''contacts'' properties,
                           PostSearch ''contacts'' ''email'' email None,
                           PatchObject ''contacts'' (JInt (hub_next_id w)) properties]))"
    using assms(1,2,3,5) m1
    by (simp add: create_or_update_hubspot_contact_def request_def hub_duplicate_def
          hub_result_def obj_get_def dict_get_def)
  with first show ?thesis by blast
qed


lemma contact_create_answered:
  assumes "request net (PostObject ''contacts'' properties) s = (Reply status b, s1)"
  shows "status = 201 \<Longrightarrow>
           create_or_update_hubspot_contact net email properties s = (Inr ContactCreated, s1)"
    and "status \<noteq> 201 \<Longrightarrow> status \<noteq> 409 \<Longrightarrow>
           create_or_update_hubspot_contact net email properties s
             = (Inr (ContactFailed status), s1)"
  using assms by (simp_all add: create_or_update_hubspot_contact_def)

lemma contact_update_path:
  assumes "request net (PostObject ''contacts'' properties) s = (Reply 409 b, s1)"
      and "request net (PostSearch ''contacts'' ''email'' email None) s1
             = (Reply 200 (Results (r # rs)), s2)"
      and "obj_get r ''id'' = Inr i" and "py_truthy i"
  shows "create_or_update_hubspot_contact net email properties s =
           (case request net (PatchObject ''contacts'' i properties) s2 of
              (NoReply, s3) \<Rightarrow> (Inl TransportError, s3)
            | (Reply st b3, s3) \<Rightarrow>
                if st = 200 then (Inr ContactUpdated, s3)
                else (Inr (ContactFailedUpdate st), s3))"
  using assms by (simp add: create_or_update_hubspot_contact_def)

lemma contact_more_than_create:
  assumes "create_or_update_hubspot_contact net email properties s = (res, s')"
      and "snd s' \<noteq> snd s @ [PostObject ''contacts'' properties]"
  shows "\<exists>b. fst (request net (PostObject ''contacts'' properties) s) = Reply 409 b"
  using assms
  by (auto simp: create_or_update_hubspot_contact_def
      split: reply.splits prod.splits if_splits
      dest!: request_trace)

lemma contact_update_sent:
  assumes "create_or_update_hubspot_contact net email properties s = (res, s')"
      and "snd s' = snd s @ [PostObject ''contacts'' properties,
                             PostSearch ''contacts'' ''email'' email None,
                             PatchObject ''contacts'' i properties]"
  shows "\<exists>b s1 r rs s2.
           request net (PostObject ''contacts'' properties) s = (Reply 409 b, s1)
         \<and> request net (PostSearch ''contacts'' ''email'' email None) s1
             = (Reply 200 (Results (r # rs)), s2)
         \<and> obj_get r ''id'' = Inr i \<and> py_truthy i"
proof -
  obtain r1 s1 where c: "request net (PostObject ''contacts'' properties) s = (r1, s1)"
    by (cases "request net (PostObject ''contacts'' properties) s")
  note t1 = request_trace [OF c]
  from assms c t1 obtain b where r1: "r1 = Reply 409 b"
    by (cases r1) (auto simp: create_or_update_hubspot_contact_def split: if_splits)
  obtain r2 s2 where q: "request net (PostSearch ''contacts'' ''email'' email None) s1 = (r2, s2)"
    by (cases "request net (PostSearch ''contacts'' ''email'' email None) s1")
  note t2 = request_trace [OF q]
  from assms c r1 q t1 t2 obtain b2 where r2: "r2 = Reply 200 b2"
    by (cases r2) (auto simp: create_or_update_hubspot_contact_def split: if_splits)
  from assms c r1 q r2 t1 t2 obtain r rs where b2: "b2 = Results (r # rs)"
    by (cases b2) (auto simp: create_or_update_hubspot_contact_def split: list.splits)
  from assms c r1 q r2 b2 t1 t2 obtain j where j: "obj_get r ''id'' = Inr j"
    by (cases "obj_get r ''id''") (auto simp: create_or_update_hubspot_contact_def)
  from assms c r1 q r2 b2 j t1 t2 have tr: "py_truthy j"
    by (auto simp: create_or_update_hubspot_contact_def split: if_splits)
  obtain r3 s3 where u: "request net (PatchObject ''contacts'' j properties) s2 = (r3, s3)"
    by (cases "request net (PatchObject ''contacts'' j properties) s2")
  note t3 = request_trace [OF u]
  from assms c r1 q r2 b2 j tr u have "s' = s3"
    by (cases r3) (auto simp: create_or_update_hubspot_contact_def split: if_splits)
  with assms(2) t1 t2 t3 have "j = i" by simp
  with c r1 q r2 b2 j tr show ?thesis by blast
qed

text \<open>
  C1 (as amended). In \<^verbatim>\<open>SyncManager.send_to_hubspot\<close>, when the search answers 200 with at
  least one result that has an id, exactly two requests are sent, the search and an update
  of the first result's id, the record is reported as updated unless the update request
  itself raises, and no create is sent. \<^verbatim>\<open>create_or_update_hubspot_contact\<close> always
  sends the create first; when the create is answered 201 or with any status other than
  409 it returns at once, so a search or an update is sent only after a create answered
  409, and an update only after a search answered 200 whose first result has a truthy id,
  which is the id updated. Against the reference destination, running either upsert twice
  with the same properties (whose unique value matches no stored object) gives created
  and then updated, the update addressing the object created by the first run.
\<close>

theorem upsert_first_match_and_idempotence:
  "(request net (PostSearch (obj @ ''s'') u (dict_get properties u) (Some 1)) s
        = (Reply 200 (Results (r # rs)), s1) \<and> result_id r = Inr obj_id
      \<longrightarrow> snd (snd (search_then_write net obj u properties s))
            = snd s @ [PostSearch (obj @ ''s'') u (dict_get properties u) (Some 1),
                       PatchObject (obj @ ''s'') obj_id properties]
          \<and> fst (search_then_write net obj u properties s) \<in> {Inr Updated, Inl TransportError})
   \<and> (\<exists>cs. snd (snd (create_or_update_hubspot_contact net email properties s))
             = snd s @ PostObject ''contacts'' properties # cs)
   \<and> (hub_search_status w = 200 \<and> map_of properties u = Some v
        \<and> hub_matches w (obj @ ''s'') u v = [] \<and> \<not> hub_duplicate w (obj @ ''s'') properties
      \<longrightarrow> (\<exists>w1 w2.
             search_then_write hub_net obj u properties (w, t)
               = (Inr Created,
                  (w1, t @ [PostSearch (obj @ ''s'') u v (Some 1),
                            PostObject (obj @ ''s'') properties]))
           \<and> search_then_write hub_net obj u properties (w1, t')
               = (Inr Updated,
                  (w2, t' @ [PostSearch (obj @ ''s'') u v (Some 1),
                             PatchObject (obj @ ''s'') (JInt (hub_next_id w)) properties]))))
   \<and> (hub_search_status w = 200 \<and> hub_unique w ''contacts'' = Some ''email''
        \<and> map_of properties ''email'' = Some email
        \<and> hub_matches w ''contacts'' ''email'' email = [] \<and> hub_next_id w \<noteq> 0
      \<longrightarrow> (\<exists>w1 w2.
             create_or_update_hubspot_contact hub_net email properties (w, t)
               = (Inr ContactCreated, (w1, t @ [PostObject ''contacts'' properties]))
           \<and> create_or_update_hubspot_contact hub_net email properties (w1, t')
               = (Inr ContactUpdated,
                  (w2, t' @ [PostObject ''contacts'' properties,
                             PostSearch ''contacts'' ''email'' email None,
                             PatchObject ''contacts'' (JInt (hub_next_id w)) properties]))))
   \<and> (request net (PostObject ''contacts'' properties) s = (Reply status b, s1) \<and> status = 201
      \<longrightarrow> create_or_update_hubspot_contact net email properties s = (Inr ContactCreated, s1))
   \<and> (request net (PostObject ''contacts'' properties) s = (Reply status b, s1)
        \<and> status \<noteq> 201 \<and> status \<noteq> 409
      \<longrightarrow> create_or_update_hubspot_contact net email properties s
            = (Inr (ContactFailed status), s1))
   \<and> (create_or_update_hubspot_contact net email properties s = (res, s')
        \<and> snd s' \<noteq> snd s @ [PostObject ''contacts'' properties]
      \<longrightarrow> (\<exists>b'. fst (request net (PostObject ''contacts'' properties) s) = Reply 409 b'))
   \<and> (create_or_update_hubspot_contact net email properties s = (res, s')
        \<and> snd s' = snd s @ [PostObject ''contacts'' properties,
                               PostSearch ''contacts'' ''email'' email None,
                               PatchObject ''contacts'' i properties]
      \<longrightarrow> (\<exists>b' s1' r' rs' s2'.
             request net (PostObject ''contacts'' properties) s = (Reply 409 b', s1')
           \<and> request net (PostSearch ''contacts'' ''email'' email None) s1'
               = (Reply 200 (Results (r' # rs')), s2')
           \<and> obj_get r' ''id'' = Inr i \<and> py_truthy i))
   \<and> (request net (PostObject ''contacts'' properties) s = (Reply 409 b, s1)
        \<and> request net (PostSearch ''contacts'' ''email'' email None) s1
            = (Reply 200 (Results (r # rs)), s2)
        \<and> obj_get r ''id'' = Inr i \<and> py_truthy i
      \<longrightarrow> create_or_update_hubspot_contact net email properties s =
            (case request net (PatchObject ''contacts'' i properties) s2 of
               (NoReply, s3) \<Rightarrow> (Inl TransportError, s3)
             | (Reply st b3, s3) \<Rightarrow>
                 if st = 200 then (Inr ContactUpdated, s3)
                 else (Inr (ContactFailedUpdate st), s3)))"
proof (intro conjI impI)
  assume a: "request net (PostSearch (obj @ ''s'') u (dict_get properties u) (Some 1)) s
        = (Reply 200 (Results (r # rs)), s1) \<and> result_id r = Inr obj_id"
  then show "snd (snd (search_then_write net obj u properties s))
            = snd s @ [PostSearch (obj @ ''s'') u (dict_get properties u) (Some 1),
                       PatchObject (obj @ ''s'') obj_id properties]"
    using search_hit_updates(2) by blast
  from a have "search_then_write net obj u properties s =
           (case request net (PatchObject (obj @ ''s'') obj_id properties) s1 of
              (NoReply, s2) \<Rightarrow> (Inl TransportError, s2)
            | (Reply st2 b2, s2) \<Rightarrow> (Inr Updated, s2))"
    using search_hit_updates(1) by blast
  then show "fst (search_then_write net obj u properties s) \<in> {Inr Updated, Inl TransportError}"
    by (simp split: prod.splits reply.splits)
next
  obtain res s' where c: "create_or_update_hubspot_contact net email properties s = (res, s')"
    by (cases "create_or_update_hubspot_contact net email properties s")
  from contact_requests [OF c] c
  show "\<exists>cs. snd (snd (create_or_update_hubspot_contact net email properties s))
             = snd s @ PostObject ''contacts'' properties # cs"
    by auto
next
  assume "hub_search_status w = 200 \<and> map_of properties u = Some v
        \<and> hub_matches w (obj @ ''s'') u v = [] \<and> \<not> hub_duplicate w (obj @ ''s'') properties"
  then show "\<exists>w1 w2.
             search_then_write hub_net obj u properties (w, t)
               = (Inr Created,
                  (w1, t @ [PostSearch (obj @ ''s'') u v (Some 1),
                            PostObject (obj @ ''s'') properties]))
           \<and> search_then_write hub_net obj u properties (w1, t')
               = (Inr Updated,
                  (w2, t' @ [PostSearch (obj @ ''s'') u v (Some 1),
                             PatchObject (obj @ ''s'') (JInt (hub_next_id w)) properties]))"
    using upsert_twice_on_hub by blast
next
  assume "hub_search_status w = 200 \<and> hub_unique w ''contacts'' = Some ''email''
        \<and> map_of properties ''email'' = Some email
        \<and> hub_matches w ''contacts'' ''email'' email = [] \<and> hub_next_id w \<noteq> 0"
  then show "\<exists>w1 w2.
             create_or_update_hubspot_contact hub_net email properties (w, t)
               = (Inr ContactCreated, (w1, t @ [PostObject ''contacts'' properties]))
           \<and> create_or_update_hubspot_contact hub_net email properties (w1, t')
               = (Inr ContactUpdated,
                  (w2, t' @ [PostObject ''contacts'' properties,
                             PostSearch ''contacts'' ''email'' email None,
                             PatchObject ''contacts'' (JInt (hub_next_id w)) properties]))"
    using contact_twice_on_hub by blast
next
  assume "request net (PostObject ''contacts'' properties) s = (Reply status b, s1) \<and> status = 201"
  then show "create_or_update_hubspot_contact net email properties s = (Inr ContactCreated, s1)"
    using contact_create_answered(1) by blast
next
  assume "request net (PostObject ''contacts'' properties) s = (Reply status b, s1)
        \<and> status \<noteq> 201 \<and> status \<noteq> 409"
  then show "create_or_update_hubspot_contact net email properties s
            = (Inr (ContactFailed status), s1)"
    using contact_create_answered(2) by blast
next
  assume "create_or_update_hubspot_contact net email properties s = (res, s')
        \<and> snd s' \<noteq> snd s @ [PostObject ''contacts'' properties]"
  then show "\<exists>b'. fst (request net (PostObject ''contacts'' properties) s) = Reply 409 b'"
    using contact_more_than_create by blast
next
  assume "create_or_update_hubspot_contact net email properties s = (res, s')
        \<and> snd s' = snd s @ [PostObject ''contacts'' properties,
                               PostSearch ''contacts'' ''email'' email None,
                               PatchObject ''contacts'' i properties]"
  then have a: "create_or_update_hubspot_contact net email properties s = (res, s')"
    and b: "snd s' = snd s @ [PostObject ''contacts'' properties,
                               PostSearch ''contacts'' ''email'' email None,
                               PatchObject ''contacts'' i properties]"
    by simp_all
  from contact_update_sent [OF a b]
  show "\<exists>b' s1' r' rs' s2'.
             request net (PostObject ''contacts'' properties) s = (Reply 409 b', s1')
           \<and> request net (PostSearch ''contacts'' ''email'' email None) s1'
               = (Reply 200 (Results (r' # rs')), s2')
           \<and> obj_get r' ''id'' = Inr i \<and> py_truthy i" .
next
  assume "request net (PostObject ''contacts'' properties) s = (Reply 409 b, s1)
        \<and> request net (PostSearch ''contacts'' ''email'' email None) s1
            = (Reply 200 (Results (r # rs)), s2)
        \<and> obj_get r ''id'' = Inr i \<and> py_truthy i"
  then show "create_or_update_hubspot_contact net email properties s =
            (case request net (PatchObject ''contacts'' i properties) s2 of
               (NoReply, s3) \<Rightarrow> (Inl TransportError, s3)
             | (Reply st b3, s3) \<Rightarrow>
                 if st = 200 then (Inr ContactUpdated, s3)
                 else (Inr (ContactFailedUpdate st), s3))"
    using contact_update_path by blast
qed


theorem upsert_first_match_and_idempotence_witness:
  "snd (snd (search_then_write hub_net ''contact'' ''email'' [(''email'', JStr ''a@x.com'')]
               (stored_hub, [])))
     = [PostSearch ''contacts'' ''email'' (JStr ''a@x.com'') (Some 1),
        PatchObject ''contacts'' (JInt 1) [(''email'', JStr ''a@x.com'')]]
   \<and> (\<exists>w1 w2.
         search_then_write hub_net ''contact'' ''email'' [(''email'', JStr ''a@x.com'')]
             (scenario_hub, [])
           = (Inr Created,
              (w1, [PostSearch ''contacts'' ''email'' (JStr ''a@x.com'') (Some 1),
                    PostObject ''contacts'' [(''email'', JStr ''a@x.com'')]]))
       \<and> search_then_write hub_net ''contact'' ''email'' [(''email'', JStr ''a@x.com'')] (w1, [])
           = (Inr Updated,
              (w2, [PostSearch ''contacts'' ''email'' (JStr ''a@x.com'') (Some 1),
                    PatchObject ''contacts'' (JInt 1) [(''email'', JStr ''a@x.com'')]])))
   \<and> (\<exists>w1 w2.
         create_or_update_hubspot_contact hub_net (JStr ''b@x.com'') [(''email'', JStr ''b@x.com'')]
             (unique_email_hub, [])
           = (Inr ContactCreated, (w1, [PostObject ''contacts'' [(''email'', JStr ''b@x.com'')]]))
       \<and> create_or_update_hubspot_contact hub_net (JStr ''b@x.com'') [(''email'', JStr ''b@x.com'')]
             (w1, [])
           = (Inr ContactUpdated,
              (w2, [PostObject ''contacts'' [(''email'', JStr ''b@x.com'')],
                    PostSearch ''contacts'' ''email'' (JStr ''b@x.com'') None,
                    PatchObject ''contacts'' (JInt 2) [(''email'', JStr ''b@x.com'')]])))
   \<and> fst (create_or_update_hubspot_contact hub_net (JStr ''b@x.com'')
            [(''email'', JStr ''b@x.com'')] (unique_email_hub, [])) = Inr ContactCreated
   \<and> create_or_update_hubspot_contact (status_net 500) (JStr ''a@x.com'')
            [(''email'', JStr ''a@x.com'')] (unique_email_hub, [])
       = (Inr (ContactFailed 500),
          (unique_email_hub, [PostObject ''contacts'' [(''email'', JStr ''a@x.com'')]]))
   \<and> (\<exists>b'. fst (request hub_net (PostObject ''contacts'' [(''email'', JStr ''a@x.com'')])
                      (unique_email_hub, [])) = Reply 409 b')
   \<and> (\<exists>b' s1' r' rs' s2'.
         request hub_net (PostObject ''contacts'' [(''email'', JStr ''a@x.com'')])
             (unique_email_hub, []) = (Reply 409 b', s1')
       \<and> request hub_net (PostSearch ''contacts'' ''email'' (JStr ''a@x.com'') None) s1'
           = (Reply 200 (Results (r' # rs')), s2')
       \<and> obj_get r' ''id'' = Inr (JInt 1) \<and> py_truthy (JInt 1))
   \<and> fst (create_or_update_hubspot_contact hub_net (JStr ''a@x.com'')
            [(''email'', JStr ''a@x.com'')] (unique_email_hub, [])) = Inr ContactUpdated"
proof (intro conjI)
  let ?p = "[(''email'', JStr ''a@x.com'')]"
  have h1: "request hub_net (PostSearch (''contact'' @ ''s'') ''email'' (dict_get ?p ''email'') (Some 1))
              (stored_hub, [])
            = (Reply 200 (Results (hub_result (1, ?p) # [])),
               (stored_hub, [PostSearch ''contacts'' ''email'' (JStr ''a@x.com'') (Some 1)]))
          \<and> result_id (hub_result (1, ?p)) = Inr (JInt 1)"
    by (simp add: run_defs example_defs)
  from upsert_first_match_and_idempotence
         [where net = hub_net and obj = "''contact''" and u = "''email''" and properties = ?p
            and s = "(stored_hub, [])" and r = "hub_result (1, ?p)" and rs = "[]"
            and obj_id = "JInt 1", THEN conjunct1, THEN mp, OF h1]
  show "snd (snd (search_then_write hub_net ''contact'' ''email'' ?p (stored_hub, [])))
     = [PostSearch ''contacts'' ''email'' (JStr ''a@x.com'') (Some 1),
        PatchObject ''contacts'' (JInt 1) ?p]"
    by (simp add: dict_get_def)
next
  let ?p = "[(''email'', JStr ''a@x.com'')]"
  have h3: "hub_search_status scenario_hub = 200 \<and> map_of ?p ''email'' = Some (JStr ''a@x.com'')
        \<and> hub_matches scenario_hub (''contact'' @ ''s'') ''email'' (JStr ''a@x.com'') = []
        \<and> \<not> hub_duplicate scenario_hub (''contact'' @ ''s'') ?p"
    by (simp add: run_defs example_defs)
  from upsert_first_match_and_idempotence
         [where w = scenario_hub and obj = "''contact''" and u = "''email''" and properties = ?p
            and v = "JStr ''a@x.com''" and t = "[]" and t' = "[]",
          THEN conjunct2, THEN conjunct2, THEN conjunct1, THEN mp, OF h3]
  show "\<exists>w1 w2.
         search_then_write hub_net ''contact'' ''email'' ?p (scenario_hub, [])
           = (Inr Created,
              (w1, [PostSearch ''contacts'' ''email'' (JStr ''a@x.com'') (Some 1),
                    PostObject ''contacts'' ?p]))
       \<and> search_then_write hub_net ''contact'' ''email'' ?p (w1, [])
           = (Inr Updated,
              (w2, [PostSearch ''contacts'' ''email'' (JStr ''a@x.com'') (Some 1),
                    PatchObject ''contacts'' (JInt 1) ?p]))"
    by (simp add: scenario_hub_def)
next
  let ?p = "[(''email'', JStr ''b@x.com'')]"
  have h4: "hub_search_status unique_email_hub = 200
        \<and> hub_unique unique_email_hub ''contacts'' = Some ''email''
        \<and> map_of ?p ''email'' = Some (JStr ''b@x.com'')
        \<and> hub_matches unique_email_hub ''contacts'' ''email'' (JStr ''b@x.com'') = []
        \<and> hub_next_id unique_email_hub \<noteq> 0"
    by (simp add: run_defs example_defs)
  from upsert_first_match_and_idempotence
         [where w = unique_email_hub and properties = ?p
            and email = "JStr ''b@x.com''" and t = "[]" and t' = "[]",
          THEN conjunct2, THEN conjunct2, THEN conjunct2, THEN conjunct1, THEN mp, OF h4]
  show "\<exists>w1 w2.
         create_or_update_hubspot_contact hub_net (JStr ''b@x.com'') ?p (unique_email_hub, [])
           = (Inr ContactCreated, (w1, [PostObject ''contacts'' ?p]))
       \<and> create_or_update_hubspot_contact hub_net (JStr ''b@x.com'') ?p (w1, [])
           = (Inr ContactUpdated,
              (w2, [PostObject ''contacts'' ?p,
                    PostSearch ''contacts'' ''email'' (JStr ''b@x.com'') None,
                    PatchObject ''contacts'' (JInt 2) ?p]))"
    by (simp add: example_defs)
next
  let ?p = "[(''email'', JStr ''b@x.com'')]"
  let ?s = "(unique_email_hub, [] :: call list)"
  have h5: "request hub_net (PostObject ''contacts'' ?p) ?s
              = (Reply 201 NoBody, snd (request hub_net (PostObject ''contacts'' ?p) ?s))
            \<and> (201::nat) = 201"
    by (simp add: request_def hub_duplicate_def hub_matches_def example_defs)
  from upsert_first_match_and_idempotence
         [where email = "JStr ''b@x.com''",
          THEN conjunct2, THEN conjunct2, THEN conjunct2, THEN conjunct2, THEN conjunct1,
          THEN mp, OF h5]
  show "fst (create_or_update_hubspot_contact hub_net (JStr ''b@x.com'') ?p ?s)
        = Inr ContactCreated"
    by simp
next
  let ?p = "[(''email'', JStr ''a@x.com'')]"
  let ?s = "(unique_email_hub, [] :: call list)"
  have h6: "request (status_net 500) (PostObject ''contacts'' ?p) ?s
              = (Reply 500 NoBody, (unique_email_hub, [PostObject ''contacts'' ?p]))
            \<and> (500::nat) \<noteq> 201 \<and> (500::nat) \<noteq> 409"
    by (simp add: request_def status_net_def)
  from upsert_first_match_and_idempotence
         [where email = "JStr ''a@x.com''",
          THEN conjunct2, THEN conjunct2, THEN conjunct2, THEN conjunct2, THEN conjunct2,
          THEN conjunct1, THEN mp, OF h6]
  show "create_or_update_hubspot_contact (status_net 500) (JStr ''a@x.com'') ?p ?s
       = (Inr (ContactFailed 500), (unique_email_hub, [PostObject ''contacts'' ?p]))" .
next
  let ?p = "[(''email'', JStr ''a@x.com'')]"
  let ?s = "(unique_email_hub, [] :: call list)"
  let ?run = "create_or_update_hubspot_contact hub_net (JStr ''a@x.com'') ?p ?s"
  have h7: "?run = (fst ?run, snd ?run)
            \<and> snd (snd ?run) \<noteq> snd ?s @ [PostObject ''contacts'' ?p]"
    by (simp add: create_or_update_hubspot_contact_def run_defs example_defs)
  from upsert_first_match_and_idempotence
         [THEN conjunct2, THEN conjunct2, THEN conjunct2, THEN conjunct2, THEN conjunct2,
          THEN conjunct2, THEN conjunct1, THEN mp, OF h7]
  show "\<exists>b'. fst (request hub_net (PostObject ''contacts'' ?p) ?s) = Reply 409 b'" .
next
  let ?p = "[(''email'', JStr ''a@x.com'')]"
  let ?s = "(unique_email_hub, [] :: call list)"
  let ?run = "create_or_update_hubspot_contact hub_net (JStr ''a@x.com'') ?p ?s"
  have h8: "?run = (fst ?run, snd ?run)
            \<and> snd (snd ?run) = snd ?s @ [PostObject ''contacts'' ?p,
                                         PostSearch ''contacts'' ''email'' (JStr ''a@x.com'') None,
                                         PatchObject ''contacts'' (JInt 1) ?p]"
    by (simp add: create_or_update_hubspot_contact_def run_defs example_defs)
  from upsert_first_match_and_idempotence
         [THEN conjunct2, THEN conjunct2, THEN conjunct2, THEN conjunct2, THEN conjunct2,
          THEN conjunct2, THEN conjunct2, THEN conjunct1, THEN mp, OF h8]
  show "\<exists>b' s1' r' rs' s2'.
         request hub_net (PostObject ''contacts'' ?p) ?s = (Reply 409 b', s1')
       \<and> request hub_net (PostSearch ''contacts'' ''email'' (JStr ''a@x.com'') None) s1'
           = (Reply 200 (Results (r' # rs')), s2')
       \<and> obj_get r' ''id'' = Inr (JInt 1) \<and> py_truthy (JInt 1)" .
next
  let ?p = "[(''email'', JStr ''a@x.com'')]"
  let ?s = "(unique_email_hub, [] :: call list)"
  let ?s1 = "(unique_email_hub, [PostObject ''contacts'' ?p])"
  let ?s2 = "(unique_email_hub, [PostObject ''contacts'' ?p,
                                 PostSearch ''contacts'' ''email'' (JStr ''a@x.com'') None])"
  have h9: "request hub_net (PostObject ''contacts'' ?p) ?s = (Reply 409 NoBody, ?s1)
        \<and> request hub_net (PostSearch ''contacts'' ''email'' (JStr ''a@x.com'') None) ?s1
            = (Reply 200 (Results (hub_result (1, ?p) # [])), ?s2)
        \<and> obj_get (hub_result (1, ?p)) ''id'' = Inr (JInt 1) \<and> py_truthy (JInt 1)"
    by (simp add: run_defs example_defs)
  from upsert_first_match_and_idempotence
         [where email = "JStr ''a@x.com''",
          THEN conjunct2, THEN conjunct2, THEN conjunct2, THEN conjunct2, THEN conjunct2,
          THEN conjunct2, THEN conjunct2, THEN conjunct2, THEN mp, OF h9]
  show "fst (create_or_update_hubspot_contact hub_net (JStr ''a@x.com'') ?p ?s)
        = Inr ContactUpdated"
    by (simp add: run_defs example_defs)
qed

text \<open>
  C1 as stated fails for \<^verbatim>\<open>create_or_update_hubspot_contact\<close>: the email resolves to the
  stored contact 1, and the first request sent is nevertheless a create; the update
  follows only after the destination has answered the create with 409.
\<close>

theorem contact_upsert_sends_create:
  "hub_matches unique_email_hub ''contacts'' ''email'' (JStr ''a@x.com'')
     = [(1, [(''email'', JStr ''a@x.com'')])]
   \<and> fst (create_or_update_hubspot_contact hub_net (JStr ''a@x.com'')
            [(''email'', JStr ''a@x.com''), (''firstname'', JStr ''Ann'')] (unique_email_hub, []))
     = Inr ContactUpdated
   \<and> snd (snd (create_or_update_hubspot_contact hub_net (JStr ''a@x.com'')
            [(''email'', JStr ''a@x.com''), (''firstname'', JStr ''Ann'')] (unique_email_hub, [])))
     = [PostObject ''contacts'' [(''email'', JStr ''a@x.com''), (''firstname'', JStr ''Ann'')],
        PostSearch ''contacts'' ''email'' (JStr ''a@x.com'') None,
        PatchObject ''contacts'' (JInt 1)
          [(''email'', JStr ''a@x.com''), (''firstname'', JStr ''Ann'')]]"
  by (simp add: create_or_update_hubspot_contact_def run_defs example_defs)

text \<open>
  C10. A search answered with a status other than 200 is handled exactly as a search
  answered with no result: the record is sent as a create. With the customer already
  stored as contact 1 and every search answered with 500, the run reports the record as
  created and the destination then holds two contacts with the same email.
\<close>

theorem failed_search_is_treated_as_no_match:
  "(request net (PostSearch (obj @ ''s'') u (dict_get properties u) (Some 1)) s = (Reply status b, s1)
      \<and> (status \<noteq> 200 \<or> b = Results [])
      \<longrightarrow> search_then_write net obj u properties s =
            (case request net (PostObject (obj @ ''s'') properties) s1 of
               (NoReply, s2) \<Rightarrow> (Inl TransportError, s2)
             | (Reply st2 b2, s2) \<Rightarrow>
                 (if st2 = 201 then (Inr Created, s2) else (Inr FailedCreate, s2))))
   \<and> map fst (hub_matches failing_search_hub ''contacts'' ''email'' (JStr ''a@x.com'')) = [1]
   \<and> fst (send_to_hubspot hub_net customer_config customer_a (failing_search_hub, []))
       = Inr Created
   \<and> map fst (hub_matches
                 (fst (snd (send_to_hubspot hub_net customer_config customer_a
                              (failing_search_hub, []))))
                 ''contacts'' ''email'' (JStr ''a@x.com'')) = [1, 2]"
proof (intro conjI impI)
  assume "request net (PostSearch (obj @ ''s'') u (dict_get properties u) (Some 1)) s = (Reply status b, s1)
      \<and> (status \<noteq> 200 \<or> b = Results [])"
  then show "search_then_write net obj u properties s =
            (case request net (PostObject (obj @ ''s'') properties) s1 of
               (NoReply, s2) \<Rightarrow> (Inl TransportError, s2)
             | (Reply st2 b2, s2) \<Rightarrow>
                 (if st2 = 201 then (Inr Created, s2) else (Inr FailedCreate, s2)))"
    using search_miss_creates by blast
qed (simp_all add: run_defs example_defs Let_def)

theorem failed_search_is_treated_as_no_match_witness:
  "fst (search_then_write hub_net ''contact'' ''email'' [(''email'', JStr ''a@x.com'')]
          (failing_search_hub, [])) = Inr Created
   \<and> snd (snd (search_then_write hub_net ''contact'' ''email'' [(''email'', JStr ''a@x.com'')]
          (failing_search_hub, [])))
       = [PostSearch ''contacts'' ''email'' (JStr ''a@x.com'') (Some 1),
          PostObject ''contacts'' [(''email'', JStr ''a@x.com'')]]"
proof -
  let ?p = "[(''email'', JStr ''a@x.com'')]"
  have h: "request hub_net (PostSearch (''contact'' @ ''s'') ''email'' (dict_get ?p ''email'') (Some 1))
              (failing_search_hub, [])
            = (Reply 500 NoBody,
               (failing_search_hub, [PostSearch ''contacts'' ''email'' (JStr ''a@x.com'') (Some 1)]))
          \<and> (500 \<noteq> (200::nat) \<or> NoBody = Results [])"
    by (simp add: run_defs example_defs)
  from failed_search_is_treated_as_no_match
         [where net = hub_net and obj = "''contact''" and u = "''email''" and properties = ?p
            and s = "(failing_search_hub, [])" and status = 500 and b = NoBody,
          THEN conjunct1, THEN mp, OF h]
  show ?thesis
    by (simp add: run_defs example_defs)
qed

subsection \<open>Schema reconciliation\<close>

lemma create_hubspot_property_contacts_trace:
  "create_hubspot_property_contacts net name label s = (r, s') \<Longrightarrow>
   snd s' = snd s @ [PostProperty ''contacts'' name ''contactinformation'']"
  by (auto simp: create_hubspot_property_contacts_def split: prod.splits reply.splits
      dest: request_trace)

lemma fetch_hubspot_properties_trace:
  "fetch_hubspot_properties net obj s = (r, s') \<Longrightarrow> snd s' = snd s @ [GetProperties obj]"
  by (auto simp: fetch_hubspot_properties_def split: prod.splits reply.splits if_splits
      dest: request_trace)

lemma create_hubspot_property_raises:
  "fst (create_hubspot_property net obj name grp s) = Inl e \<Longrightarrow> e = TransportError"
  by (auto simp: create_hubspot_property_def split: prod.splits reply.splits if_splits)

lemma create_missing_raises:
  "fst (create_missing net obj grp cur names s) = Inl e \<Longrightarrow> e = TransportError"
proof (induction names arbitrary: s)
  case Nil
  then show ?case by simp
next
  case (Cons f names)
  show ?case
  proof (cases "f \<in> set cur")
    case True
    with Cons show ?thesis by simp
  next
    case False
    obtain r1 s1 where c: "create_hubspot_property net obj f grp s = (r1, s1)"
      by (cases "create_hubspot_property net obj f grp s")
    show ?thesis
    proof (cases r1)
      case (Inl e')
      with c create_hubspot_property_raises [of net obj f grp s e'] Cons.prems False
      show ?thesis by simp
    next
      case (Inr x)
      with c Cons.prems False have "fst (create_missing net obj grp cur names s1) = Inl e" by simp
      then show ?thesis by (rule Cons.IH)
    qed
  qed
qed

lemma fetch_hubspot_properties_raises:
  "fst (fetch_hubspot_properties net obj s) = Inl e \<Longrightarrow>
   e = TransportError \<or> (\<exists>status. e = HTTPStatusError status \<and> \<not> is_success status)"
  by (auto simp: fetch_hubspot_properties_def split: prod.splits reply.splits if_splits)

lemma create_hubspot_property_contacts_raises:
  "fst (create_hubspot_property_contacts net name label s) = Inl e \<Longrightarrow> e = TransportError"
  by (auto simp: create_hubspot_property_contacts_def split: prod.splits reply.splits)

lemma ensure_metafield_properties_raises:
  "fst (ensure_metafield_properties net keys hubspot_props s) = Inl e \<Longrightarrow>
   e = TransportError \<or> (\<exists>status. e = HTTPStatusError status \<and> \<not> is_success status)"
proof (induction keys arbitrary: s hubspot_props)
  case Nil
  then show ?case by simp
next
  case (Cons k keys)
  show ?case
  proof (cases "k \<in> set hubspot_props")
    case True
    with Cons show ?thesis by simp
  next
    case False
    obtain r1 s1 where c: "create_hubspot_property_contacts net k k s = (r1, s1)"
      by (cases "create_hubspot_property_contacts net k k s")
    show ?thesis
    proof (cases r1)
      case (Inl e')
      with c create_hubspot_property_contacts_raises [of net k k s e'] Cons.prems False
      show ?thesis by simp
    next
      case (Inr status)
      obtain r2 s2 where f: "fetch_hubspot_properties net ''contacts'' s1 = (r2, s2)"
        by (cases "fetch_hubspot_properties net ''contacts'' s1")
      show ?thesis
      proof (cases r2)
        case (Inl e')
        with Inr c f Cons.prems False have "e = e'" by simp
        with fetch_hubspot_properties_raises [of net "''contacts''" s1 e'] f Inl
        show ?thesis by simp
      next
        case (Inr props')
        with \<open>r1 = Inr status\<close> c f Cons.prems False
        have "fst (ensure_metafield_properties net keys props' s2) = Inl e" by simp
        then show ?thesis by (rule Cons.IH)
      qed
    qed
  qed
qed

lemma ensure_metafield_properties_calls:
  "ensure_metafield_properties net keys hubspot_props s = (Inr props', s') \<Longrightarrow>
   \<exists>created. set created \<subseteq> set keys \<and>
     snd s' = snd s @ concat (map (\<lambda>k. [PostProperty ''contacts'' k ''contactinformation'',
                                          GetProperties ''contacts'']) created)"
proof (induction keys arbitrary: s hubspot_props)
  case Nil
  then show ?case by (intro exI [of _ "[]"]) simp
next
  case (Cons k keys)
  show ?case
  proof (cases "k \<in> set hubspot_props")
    case True
    with Cons.prems have "ensure_metafield_properties net keys hubspot_props s = (Inr props', s')"
      by simp
    from Cons.IH [OF this] show ?thesis by auto
  next
    case False
    obtain r1 s1 where c: "create_hubspot_property_contacts net k k s = (r1, s1)"
      by (cases "create_hubspot_property_contacts net k k s")
    note t1 = create_hubspot_property_contacts_trace [OF c]
    obtain r2 s2 where f: "fetch_hubspot_properties net ''contacts'' s1 = (r2, s2)"
      by (cases "fetch_hubspot_properties net ''contacts'' s1")
    note t2 = fetch_hubspot_properties_trace [OF f]
    from Cons.prems False c f obtain status fetched where
      "r1 = Inr status" "r2 = Inr fetched"
      by (cases r1; cases r2) auto
    with Cons.prems False c f
    have "ensure_metafield_properties net keys fetched s2 = (Inr props', s')" by simp
    from Cons.IH [OF this] obtain created where
      sub: "set created \<subseteq> set keys" and
      tr: "snd s' = snd s2 @ concat (map (\<lambda>k. [PostProperty ''contacts'' k ''contactinformation'',
                                          GetProperties ''contacts'']) created)"
      by blast
    show ?thesis
      using sub tr t1 t2 by (intro exI [of _ "k # created"]) auto
  qed
qed


lemma property_race_on_hub:
  assumes "name \<notin> set (hub_properties w (obj @ ''s''))"
  shows "\<exists>w1. create_hubspot_property hub_net obj name grp (w, t)
                 = (Inr PropertyReady, (w1, t @ [PostProperty (obj @ ''s'') name grp]))
            \<and> create_hubspot_property hub_net obj name grp' (w1, t')
                 = (Inr PropertyReady, (w1, t' @ [PostProperty (obj @ ''s'') name grp']))
            \<and> fst (request hub_net (PostProperty (obj @ ''s'') name grp') (w1, t'))
                 = Reply 409 NoBody
            \<and> name \<in> set (hub_properties w1 (obj @ ''s''))"
  using assms
  by (intro exI [of _ "w\<lparr>hub_properties := (hub_properties w)
                           (obj @ ''s'' := hub_properties w (obj @ ''s'') @ [name])\<rparr>"])
     (simp add: create_hubspot_property_def request_def)

lemma create_missing_continues:
  "field \<notin> set cur \<Longrightarrow>
   request net (PostProperty (obj @ ''s'') field grp) s = (Reply status b, s1) \<Longrightarrow>
   create_missing net obj grp cur (field # rest) s = create_missing net obj grp cur rest s1"
  by (simp add: create_hubspot_property_def)

lemma ensure_metafield_properties_continues:
  "key \<notin> set hubspot_props \<Longrightarrow>
   request net (PostProperty ''contacts'' key ''contactinformation'') s = (Reply status b, s1) \<Longrightarrow>
   ensure_metafield_properties net (key # rest) hubspot_props s =
     (case fetch_hubspot_properties net ''contacts'' s1 of
        (Inl e, s2) \<Rightarrow> (Inl e, s2)
      | (Inr fetched, s2) \<Rightarrow> ensure_metafield_properties net rest fetched s2)"
  by (simp add: create_hubspot_property_contacts_def)

lemma request_answered:
  assumes "\<forall>c w. fst (net c w) \<noteq> NoReply"
  shows "\<exists>status b s1. request net c s = (Reply status b, s1)"
proof -
  obtain r w' where n: "net c (fst s) = (r, w')" by (cases "net c (fst s)")
  with assms [rule_format, of c "fst s"] obtain status b where "r = Reply status b"
    by (cases r) auto
  with n show ?thesis by (simp add: request_def)
qed

lemma request_reply_of_net:
  "request net c s = (r, s1) \<Longrightarrow> fst (net c (fst s)) = r"
  by (auto simp: request_def split: prod.splits)

lemma listing_succeeds:
  assumes "\<forall>c w. fst (net c w) \<noteq> NoReply"
      and "\<forall>obj w status b. fst (net (GetProperties obj) w) = Reply status b \<longrightarrow> is_success status"
  shows "\<exists>cur s1. get_hubspot_properties net obj s = (Inr cur, s1)"
    and "\<exists>fetched s1. fetch_hubspot_properties net object_type s = (Inr fetched, s1)"
proof -
  from request_answered [OF assms(1)] obtain status b s1 where
    r: "request net (GetProperties (obj @ ''s'')) s = (Reply status b, s1)" by blast
  from request_reply_of_net [OF r] assms(2) have "is_success status" by blast
  with r show "\<exists>cur s1. get_hubspot_properties net obj s = (Inr cur, s1)"
    by (simp add: get_hubspot_properties_def)
  from request_answered [OF assms(1)] obtain status' b' s1' where
    r': "request net (GetProperties object_type) s = (Reply status' b', s1')" by blast
  from request_reply_of_net [OF r'] assms(2) have "is_success status'" by blast
  with r' show "\<exists>fetched s1. fetch_hubspot_properties net object_type s = (Inr fetched, s1)"
    by (simp add: fetch_hubspot_properties_def)
qed

lemma create_missing_succeeds:
  assumes "\<forall>c w. fst (net c w) \<noteq> NoReply"
  shows "\<exists>s'. create_missing net obj grp cur names s = (Inr (), s')"
proof (induction names arbitrary: s)
  case Nil
  show ?case by simp
next
  case (Cons f names)
  show ?case
  proof (cases "f \<in> set cur")
    case True
    with Cons show ?thesis by simp
  next
    case False
    from request_answered [OF assms] obtain status b s1 where
      "request net (PostProperty (obj @ ''s'') f grp) s = (Reply status b, s1)" by blast
    from create_missing_continues [OF False this] Cons [of s1] show ?thesis by simp
  qed
qed

lemma ensure_metafield_properties_succeeds:
  assumes "\<forall>c w. fst (net c w) \<noteq> NoReply"
      and "\<forall>obj w status b. fst (net (GetProperties obj) w) = Reply status b \<longrightarrow> is_success status"
  shows "\<exists>ps s'. ensure_metafield_properties net keys hubspot_props s = (Inr ps, s')"
proof (induction keys arbitrary: s hubspot_props)
  case Nil
  show ?case by simp
next
  case (Cons k keys)
  show ?case
  proof (cases "k \<in> set hubspot_props")
    case True
    with Cons show ?thesis by simp
  next
    case False
    from request_answered [OF assms(1)] obtain status b s1 where
      r: "request net (PostProperty ''contacts'' k ''contactinformation'') s = (Reply status b, s1)"
      by blast
    from listing_succeeds(2) [OF assms] obtain fetched s2 where
      f: "fetch_hubspot_properties net ''contacts'' s1 = (Inr fetched, s2)" by blast
    from ensure_metafield_properties_continues [OF False r] f Cons [of fetched s2]
    show ?thesis by simp
  qed
qed

lemma hub_net_answers: "fst (hub_net c w) \<noteq> NoReply"
  by (cases c) (auto split: json.splits)

lemma hub_net_listing: "fst (hub_net (GetProperties obj) w) = Reply status b \<Longrightarrow> is_success status"
  by (auto simp: is_success_def)

lemma get_hubspot_properties_raises:
  "fst (get_hubspot_properties net obj s) = Inl e \<Longrightarrow>
   e = TransportError \<or> (\<exists>status. e = HTTPStatusError status \<and> \<not> is_success status)"
  by (auto simp: get_hubspot_properties_def split: prod.splits reply.splits if_splits)

text \<open>
  C5. A property creation answered with 409 has the same result as one answered with
  201 ("Property ready"), and no status of a creation response makes a reconciler raise
  or stop: after a creation that is answered, whatever the status, the loop of
  \<^verbatim>\<open>send_to_hubspot\<close> goes on with the next name and the loop of
  \<^verbatim>\<open>sync_custom_attributes\<close> goes on with the new fetch of the property set. A
  reconciler raises only when a request gets no response or when a listing of the
  properties is answered with an error status: when every request is answered and every
  listing is answered with success, listing and creation loop together end without an
  exception. When two reconcilers that both found a property missing send the creation
  one after the other to the reference destination, the second is answered 409 and both
  end with "Property ready" and the property present.
\<close>

theorem already_exists_is_success:
  "(request net (PostProperty (obj @ ''s'') name grp) s = (Reply status b, s1)
      \<and> (status = 201 \<or> status = 409)
      \<longrightarrow> create_hubspot_property net obj name grp s = (Inr PropertyReady, s1))
   \<and> (fst (create_missing net obj grp cur names s) = Inl e \<longrightarrow> e = TransportError)
   \<and> (request net (PostProperty ''contacts'' name ''contactinformation'') s = (Reply status b, s1)
      \<longrightarrow> create_hubspot_property_contacts net name label s = (Inr status, s1))
   \<and> (fst (ensure_metafield_properties net keys hubspot_props s) = Inl e
      \<longrightarrow> e = TransportError \<or> (\<exists>st. e = HTTPStatusError st \<and> \<not> is_success st))
   \<and> (name \<notin> set (hub_properties w (obj @ ''s''))
      \<longrightarrow> (\<exists>w1. create_hubspot_property hub_net obj name grp (w, t)
                   = (Inr PropertyReady, (w1, t @ [PostProperty (obj @ ''s'') name grp]))
              \<and> create_hubspot_property hub_net obj name grp' (w1, t')
                   = (Inr PropertyReady, (w1, t' @ [PostProperty (obj @ ''s'') name grp']))
              \<and> fst (request hub_net (PostProperty (obj @ ''s'') name grp') (w1, t'))
                   = Reply 409 NoBody
              \<and> name \<in> set (hub_properties w1 (obj @ ''s''))))
   \<and> (field \<notin> set cur
        \<and> request net (PostProperty (obj @ ''s'') field grp) s = (Reply status b, s1)
      \<longrightarrow> create_missing net obj grp cur (field # rest) s
            = create_missing net obj grp cur rest s1)
   \<and> (key \<notin> set hubspot_props
        \<and> request net (PostProperty ''contacts'' key ''contactinformation'') s
            = (Reply status b, s1)
      \<longrightarrow> ensure_metafield_properties net (key # rest) hubspot_props s =
            (case fetch_hubspot_properties net ''contacts'' s1 of
               (Inl e, s2) \<Rightarrow> (Inl e, s2)
             | (Inr fetched, s2) \<Rightarrow> ensure_metafield_properties net rest fetched s2))
   \<and> ((\<forall>c w. fst (net c w) \<noteq> NoReply)
        \<and> (\<forall>obj w status b. fst (net (GetProperties obj) w) = Reply status b
                \<longrightarrow> is_success status)
      \<longrightarrow> (\<exists>current s1 s2.
             get_hubspot_properties net obj s = (Inr current, s1)
           \<and> create_missing net obj grp current names s1 = (Inr (), s2))
        \<and> (\<exists>ps s2. ensure_metafield_properties net keys hubspot_props s = (Inr ps, s2)))
   \<and> (fst (get_hubspot_properties net obj s) = Inl e
      \<longrightarrow> e = TransportError \<or> (\<exists>st. e = HTTPStatusError st \<and> \<not> is_success st))"
proof (intro conjI impI)
  assume "request net (PostProperty (obj @ ''s'') name grp) s = (Reply status b, s1)
      \<and> (status = 201 \<or> status = 409)"
  then show "create_hubspot_property net obj name grp s = (Inr PropertyReady, s1)"
    by (auto simp: create_hubspot_property_def)
next
  assume "fst (create_missing net obj grp cur names s) = Inl e"
  then show "e = TransportError" by (rule create_missing_raises)
next
  assume "request net (PostProperty ''contacts'' name ''contactinformation'') s = (Reply status b, s1)"
  then show "create_hubspot_property_contacts net name label s = (Inr status, s1)"
    by (simp add: create_hubspot_property_contacts_def)
next
  assume "fst (ensure_metafield_properties net keys hubspot_props s) = Inl e"
  then show "e = TransportError \<or> (\<exists>st. e = HTTPStatusError st \<and> \<not> is_success st)"
    by (rule ensure_metafield_properties_raises)
next
  assume "name \<notin> set (hub_properties w (obj @ ''s''))"
  then show "\<exists>w1. create_hubspot_property hub_net obj name grp (w, t)
                   = (Inr PropertyReady, (w1, t @ [PostProperty (obj @ ''s'') name grp]))
              \<and> create_hubspot_property hub_net obj name grp' (w1, t')
                   = (Inr PropertyReady, (w1, t' @ [PostProperty (obj @ ''s'') name grp']))
              \<and> fst (request hub_net (PostProperty (obj @ ''s'') name grp') (w1, t'))
                   = Reply 409 NoBody
              \<and> name \<in> set (hub_properties w1 (obj @ ''s''))"
    by (rule property_race_on_hub)
next
  assume "field \<notin> set cur
        \<and> request net (PostProperty (obj @ ''s'') field grp) s = (Reply status b, s1)"
  then show "create_missing net obj grp cur (field # rest) s
            = create_missing net obj grp cur rest s1"
    using create_missing_continues by blast
next
  assume "key \<notin> set hubspot_props
        \<and> request net (PostProperty ''contacts'' key ''contactinformation'') s
            = (Reply status b, s1)"
  then show "ensure_metafield_properties net (key # rest) hubspot_props s =
            (case fetch_hubspot_properties net ''contacts'' s1 of
               (Inl e, s2) \<Rightarrow> (Inl e, s2)
             | (Inr fetched, s2) \<Rightarrow> ensure_metafield_properties net rest fetched s2)"
    using ensure_metafield_properties_continues by blast
next
  assume h: "(\<forall>c w. fst (net c w) \<noteq> NoReply)
        \<and> (\<forall>obj w status b. fst (net (GetProperties obj) w) = Reply status b
                \<longrightarrow> is_success status)"
  then have h1: "\<forall>c w. fst (net c w) \<noteq> NoReply"
    and h2: "\<forall>obj w status b. fst (net (GetProperties obj) w) = Reply status b
                \<longrightarrow> is_success status"
    by blast+
  from listing_succeeds(1) [OF h1 h2] obtain current s1' where
    l: "get_hubspot_properties net obj s = (Inr current, s1')" by blast
  from create_missing_succeeds [OF h1] obtain s2' where
    "create_missing net obj grp current names s1' = (Inr (), s2')" by blast
  with l show "\<exists>current s1 s2.
             get_hubspot_properties net obj s = (Inr current, s1)
           \<and> create_missing net obj grp current names s1 = (Inr (), s2)"
    by blast
  from ensure_metafield_properties_succeeds [OF h1 h2]
  show "\<exists>ps s2. ensure_metafield_properties net keys hubspot_props s = (Inr ps, s2)"
    by blast
next
  assume "fst (get_hubspot_properties net obj s) = Inl e"
  then show "e = TransportError \<or> (\<exists>st. e = HTTPStatusError st \<and> \<not> is_success st)"
    by (rule get_hubspot_properties_raises)
qed

theorem already_exists_is_success_witness:
  "create_hubspot_property hub_net ''contact'' ''vip'' ''contactinformation''
       (scenario_hub\<lparr>hub_properties := (\<lambda>obj. [''vip''])\<rparr>, [])
     = (Inr PropertyReady,
        (scenario_hub\<lparr>hub_properties := (\<lambda>obj. [''vip''])\<rparr>,
         [PostProperty ''contacts'' ''vip'' ''contactinformation'']))
   \<and> fst (create_missing (failing_net (\<lambda>c. True)) ''contact'' ''contactinformation'' [] [''vip'']
            (scenario_hub, [])) = Inl TransportError
   \<and> fst (create_hubspot_property_contacts hub_net ''vip'' ''vip''
            (scenario_hub\<lparr>hub_properties := (\<lambda>obj. [''vip''])\<rparr>, [])) = Inr 409
   \<and> fst (ensure_metafield_properties (failing_net (\<lambda>c. c = GetProperties ''contacts''))
            [''vip''] [] (scenario_hub, [])) = Inl TransportError
   \<and> (\<exists>w1. create_hubspot_property hub_net ''contact'' ''vip'' ''contactinformation'' (scenario_hub, [])
              = (Inr PropertyReady, (w1, [PostProperty ''contacts'' ''vip'' ''contactinformation'']))
          \<and> create_hubspot_property hub_net ''contact'' ''vip'' ''contactinformation'' (w1, [])
              = (Inr PropertyReady, (w1, [PostProperty ''contacts'' ''vip'' ''contactinformation'']))
          \<and> ''vip'' \<in> set (hub_properties w1 ''contacts''))
   \<and> fst (create_missing hub_net ''contact'' ''contactinformation'' [] (''vip'' # [''tier''])
            (scenario_hub\<lparr>hub_properties := (\<lambda>obj. [''vip''])\<rparr>, [])) = Inr ()
   \<and> fst (ensure_metafield_properties hub_net (''vip'' # []) []
            (scenario_hub\<lparr>hub_properties := (\<lambda>obj. [''vip''])\<rparr>, [])) = Inr [''vip'']
   \<and> (\<exists>current s1 s2.
         get_hubspot_properties hub_net ''contact'' (scenario_hub, []) = (Inr current, s1)
       \<and> create_missing hub_net ''contact'' ''contactinformation'' current [''vip''] s1
           = (Inr (), s2))
   \<and> (\<exists>ps s2. ensure_metafield_properties hub_net [''vip''] [] (scenario_hub, []) = (Inr ps, s2))
   \<and> fst (get_hubspot_properties (failing_net (\<lambda>c. True)) ''contact'' (scenario_hub, []))
       = Inl TransportError"
proof (intro conjI)
  let ?w = "scenario_hub\<lparr>hub_properties := (\<lambda>obj. [''vip''])\<rparr>"
  have h1: "request hub_net (PostProperty (''contact'' @ ''s'') ''vip'' ''contactinformation'') (?w, [])
              = (Reply 409 NoBody, (?w, [PostProperty ''contacts'' ''vip'' ''contactinformation'']))
            \<and> ((409::nat) = 201 \<or> (409::nat) = 409)"
    by (simp add: request_def)
  from already_exists_is_success
         [where net = hub_net and obj = "''contact''" and name = "''vip''"
            and grp = "''contactinformation''" and s = "(?w, [])" and status = 409 and b = NoBody,
          THEN conjunct1, THEN mp, OF h1]
  show "create_hubspot_property hub_net ''contact'' ''vip'' ''contactinformation'' (?w, [])
     = (Inr PropertyReady, (?w, [PostProperty ''contacts'' ''vip'' ''contactinformation'']))"
    by simp
next
  let ?net = "failing_net (\<lambda>c. True)"
  obtain e where h2: "fst (create_missing ?net ''contact'' ''contactinformation'' [] [''vip'']
            (scenario_hub, [])) = Inl e"
    by (simp add: create_hubspot_property_def request_def failing_net_def)
  from already_exists_is_success
         [where net = ?net and obj = "''contact''" and grp = "''contactinformation''"
            and cur = "[]" and names = "[''vip'']" and s = "(scenario_hub, [])" and e = e,
          THEN conjunct2, THEN conjunct1, THEN mp, OF h2] h2
  show "fst (create_missing ?net ''contact'' ''contactinformation'' [] [''vip'']
            (scenario_hub, [])) = Inl TransportError"
    by simp
next
  let ?w = "scenario_hub\<lparr>hub_properties := (\<lambda>obj. [''vip''])\<rparr>"
  have h3: "request hub_net (PostProperty ''contacts'' ''vip'' ''contactinformation'') (?w, [])
              = (Reply 409 NoBody, (?w, [PostProperty ''contacts'' ''vip'' ''contactinformation'']))"
    by (simp add: request_def)
  from already_exists_is_success
         [where net = hub_net and name = "''vip''" and label = "''vip''"
            and s = "(?w, [])" and status = 409 and b = NoBody,
          THEN conjunct2, THEN conjunct2, THEN conjunct1, THEN mp, OF h3]
  show "fst (create_hubspot_property_contacts hub_net ''vip'' ''vip'' (?w, [])) = Inr 409"
    by simp
next
  let ?net = "failing_net (\<lambda>c. c = GetProperties ''contacts'')"
  obtain e where h4: "fst (ensure_metafield_properties ?net [''vip''] [] (scenario_hub, [])) = Inl e"
    by (simp add: create_hubspot_property_contacts_def fetch_hubspot_properties_def
          request_def failing_net_def example_defs)
  have ne: "e \<noteq> HTTPStatusError st" for st
    using h4 by (auto simp: create_hubspot_property_contacts_def fetch_hubspot_properties_def
          request_def failing_net_def example_defs)
  from already_exists_is_success
         [where net = ?net and keys = "[''vip'']" and hubspot_props = "[]"
            and s = "(scenario_hub, [])" and e = e,
          THEN conjunct2, THEN conjunct2, THEN conjunct2, THEN conjunct1, THEN mp, OF h4] h4 ne
  show "fst (ensure_metafield_properties ?net [''vip''] [] (scenario_hub, [])) = Inl TransportError"
    by auto
next
  have h5: "''vip'' \<notin> set (hub_properties scenario_hub (''contact'' @ ''s''))"
    by (simp add: scenario_hub_def)
  from already_exists_is_success
         [where w = scenario_hub and obj = "''contact''" and name = "''vip''"
            and grp = "''contactinformation''" and grp' = "''contactinformation''"
            and t = "[]" and t' = "[]",
          THEN conjunct2, THEN conjunct2, THEN conjunct2, THEN conjunct2, THEN conjunct1,
          THEN mp, OF h5]
  show "\<exists>w1. create_hubspot_property hub_net ''contact'' ''vip'' ''contactinformation'' (scenario_hub, [])
              = (Inr PropertyReady, (w1, [PostProperty ''contacts'' ''vip'' ''contactinformation'']))
          \<and> create_hubspot_property hub_net ''contact'' ''vip'' ''contactinformation'' (w1, [])
              = (Inr PropertyReady, (w1, [PostProperty ''contacts'' ''vip'' ''contactinformation'']))
          \<and> ''vip'' \<in> set (hub_properties w1 ''contacts'')"
    by auto
next
  let ?w = "scenario_hub\<lparr>hub_properties := (\<lambda>obj. [''vip''])\<rparr>"
  have h6: "''vip'' \<notin> set ([] :: string list)
        \<and> request hub_net (PostProperty (''contact'' @ ''s'') ''vip'' ''contactinformation'') (?w, [])
            = (Reply 409 NoBody, (?w, [PostProperty ''contacts'' ''vip'' ''contactinformation'']))"
    by (simp add: request_def)
  from already_exists_is_success
         [where rest = "[''tier'']",
          THEN conjunct2, THEN conjunct2, THEN conjunct2, THEN conjunct2, THEN conjunct2,
          THEN conjunct1, THEN mp, OF h6]
  show "fst (create_missing hub_net ''contact'' ''contactinformation'' [] (''vip'' # [''tier''])
            (?w, [])) = Inr ()"
    by (simp add: create_hubspot_property_def request_def)
next
  let ?w = "scenario_hub\<lparr>hub_properties := (\<lambda>obj. [''vip''])\<rparr>"
  have h7: "''vip'' \<notin> set ([] :: string list)
        \<and> request hub_net (PostProperty ''contacts'' ''vip'' ''contactinformation'') (?w, [])
            = (Reply 409 NoBody, (?w, [PostProperty ''contacts'' ''vip'' ''contactinformation'']))"
    by (simp add: request_def)
  from already_exists_is_success
         [where rest = "[]",
          THEN conjunct2, THEN conjunct2, THEN conjunct2, THEN conjunct2, THEN conjunct2,
          THEN conjunct2, THEN conjunct1, THEN mp, OF h7]
  show "fst (ensure_metafield_properties hub_net (''vip'' # []) [] (?w, [])) = Inr [''vip'']"
    by (simp add: fetch_hubspot_properties_def request_def is_success_def)
next
  have h8: "(\<forall>c w. fst (hub_net c w) \<noteq> NoReply)
        \<and> (\<forall>obj w status b. fst (hub_net (GetProperties obj) w) = Reply status b
                \<longrightarrow> is_success status)"
    using hub_net_answers hub_net_listing by blast
  note both = already_exists_is_success
         [where net = hub_net and obj = "''contact''" and grp = "''contactinformation''"
            and names = "[''vip'']" and keys = "[''vip'']" and hubspot_props = "[]"
            and s = "(scenario_hub, [])",
          THEN conjunct2, THEN conjunct2, THEN conjunct2, THEN conjunct2, THEN conjunct2,
          THEN conjunct2, THEN conjunct2, THEN conjunct1, THEN mp, OF h8]
  from both show "\<exists>current s1 s2.
         get_hubspot_properties hub_net ''contact'' (scenario_hub, []) = (Inr current, s1)
       \<and> create_missing hub_net ''contact'' ''contactinformation'' current [''vip''] s1
           = (Inr (), s2)"
    by blast
  from both show "\<exists>ps s2. ensure_metafield_properties hub_net [''vip''] [] (scenario_hub, [])
                  = (Inr ps, s2)"
    by blast
next
  let ?net = "failing_net (\<lambda>c. True)"
  obtain e where h9: "fst (get_hubspot_properties ?net ''contact'' (scenario_hub, [])) = Inl e"
    by (simp add: get_hubspot_properties_def request_def failing_net_def)
  have ne: "e \<noteq> HTTPStatusError st" for st
    using h9 by (auto simp: get_hubspot_properties_def request_def failing_net_def)
  from already_exists_is_success
         [THEN conjunct2, THEN conjunct2, THEN conjunct2, THEN conjunct2, THEN conjunct2,
          THEN conjunct2, THEN conjunct2, THEN conjunct2, THEN mp, OF h9] h9 ne
  show "fst (get_hubspot_properties ?net ''contact'' (scenario_hub, [])) = Inl TransportError"
    by auto
qed

subsection \<open>Re-fetching, batches and payloads\<close>

lemma search_then_write_listings:
  "search_then_write net obj u properties s = (r, s') \<Longrightarrow>
   \<exists>cs. snd s' = snd s @ cs \<and> filter is_listing cs = []"
  by (auto simp: search_then_write_def Let_def
      split: prod.splits reply.splits list.splits sum.splits if_splits
      dest!: request_trace)

lemma create_missing_listings:
  assumes "create_missing net obj grp cur names s = (r, s')"
  shows "\<exists>cs. snd s' = snd s @ cs \<and> filter is_listing cs = []"
proof -
  from create_missing_calls [OF assms] obtain cs where
    t: "snd s' = snd s @ cs" and
    c: "\<forall>c\<in>set cs. \<exists>name. c = PostProperty (obj @ ''s'') name grp"
    by blast
  from c have "filter is_listing cs = []" by (auto simp: filter_empty_conv)
  with t show ?thesis by blast
qed

lemma send_to_hubspot_listings:
  assumes "send_to_hubspot net config shopify_obj s = (r, s')"
  shows "\<exists>cs. snd s' = snd s @ cs \<and> length (filter is_listing cs) \<le> 1"
proof (cases "map_fields shopify_obj (field_mapping config) []")
  case (Inl e)
  with assms show ?thesis by (simp add: send_to_hubspot_def)
next
  case p1: (Inr p1)
  show ?thesis
  proof (cases "obj_get shopify_obj ''id''")
    case (Inl e)
    with assms p1 show ?thesis by (simp add: send_to_hubspot_def)
  next
    case i: (Inr shopify_id)
    obtain r1 s1 where f: "fetch_metafields net (shopify_key config) shopify_id s = (r1, s1)"
      by (cases "fetch_metafields net (shopify_key config) shopify_id s")
    note t1 = fetch_metafields_trace [OF f]
    show ?thesis
    proof (cases r1)
      case (Inl e)
      with assms p1 i f t1 show ?thesis by (auto simp: send_to_hubspot_def)
    next
      case m: (Inr metafields)
      show ?thesis
      proof (cases "add_metafields metafields p1")
        case (Inl e)
        with assms p1 i f m t1 show ?thesis by (auto simp: send_to_hubspot_def)
      next
        case p2: (Inr p2)
        let ?properties = "apply_allowed_values p2 (allowed_values config)"
        obtain r2 s2 where g: "get_hubspot_properties net (hubspot_object config) s1 = (r2, s2)"
          by (cases "get_hubspot_properties net (hubspot_object config) s1")
        note t2 = get_hubspot_properties_trace [OF g]
        show ?thesis
        proof (cases r2)
          case (Inl e)
          with assms p1 i f m p2 g t1 t2 show ?thesis
            by (auto simp: send_to_hubspot_def Let_def)
        next
          case cur: (Inr cur)
          obtain r3 s3 where c: "create_missing net (hubspot_object config) (property_group config)
              cur (map fst ?properties) s2 = (r3, s3)"
            by (cases "create_missing net (hubspot_object config) (property_group config)
              cur (map fst ?properties) s2")
          from create_missing_listings [OF c] obtain cs3 where
            t3: "snd s3 = snd s2 @ cs3" "filter is_listing cs3 = []" by blast
          show ?thesis
          proof (cases r3)
            case (Inl e)
            with assms p1 i f m p2 g cur c t1 t2 t3 show ?thesis
              by (auto simp: send_to_hubspot_def Let_def)
          next
            case u: (Inr u)
            show ?thesis
            proof (cases "py_truthy (dict_get ?properties (unique_field config))")
              case False
              with assms p1 i f m p2 g cur c u t1 t2 t3 show ?thesis
                by (auto simp: send_to_hubspot_def Let_def)
            next
              case True
              with assms p1 i f m p2 g cur c u
              have w: "search_then_write net (hubspot_object config) (unique_field config)
                         ?properties s3 = (r, s')"
                by (simp add: send_to_hubspot_def Let_def)
              from search_then_write_listings [OF w] obtain cs4 where
                t4: "snd s' = snd s3 @ cs4" "filter is_listing cs4 = []" by blast
              from t1 t2 t3 t4 show ?thesis by auto
            qed
          qed
        qed
      qed
    qed
  qed
qed

lemma search_then_write_requests:
  "search_then_write net obj u properties s = (r, s') \<Longrightarrow>
   \<exists>ws. snd s' = snd s @ ws \<and> (\<forall>c\<in>set ws. is_object_request c)"
  by (auto simp: search_then_write_def Let_def
      split: prod.splits reply.splits list.splits sum.splits if_splits
      dest!: request_trace)

lemma send_to_hubspot_requests:
  assumes "send_to_hubspot net config shopify_obj s = (Inr out, s')"
  shows "\<exists>shopify_id metafields s1 properties current s2 ws.
           obj_get shopify_obj ''id'' = Inr shopify_id
         \<and> fetch_metafields net (shopify_key config) shopify_id s = (Inr metafields, s1)
         \<and> record_properties config shopify_obj metafields = Inr properties
         \<and> get_hubspot_properties net (hubspot_object config) s1 = (Inr current, s2)
         \<and> snd s' = snd s @ GetMetafields (shopify_key config) shopify_id
                  # GetProperties (hubspot_object config @ ''s'')
                  # map (\<lambda>name. PostProperty (hubspot_object config @ ''s'') name
                                  (property_group config))
                        (filter (\<lambda>name. name \<notin> set current) (map fst properties))
                  @ ws
         \<and> (\<forall>c\<in>set ws. is_object_request c)"
proof -
  from assms obtain p1 where p1: "map_fields shopify_obj (field_mapping config) [] = Inr p1"
    by (cases "map_fields shopify_obj (field_mapping config) []")
       (auto simp: send_to_hubspot_def)
  from assms p1 obtain i where i: "obj_get shopify_obj ''id'' = Inr i"
    by (cases "obj_get shopify_obj ''id''") (auto simp: send_to_hubspot_def)
  obtain r1 s1 where f: "fetch_metafields net (shopify_key config) i s = (r1, s1)"
    by (cases "fetch_metafields net (shopify_key config) i s")
  note t1 = fetch_metafields_trace [OF f]
  from assms p1 i f obtain metas where m: "r1 = Inr metas"
    by (cases r1) (auto simp: send_to_hubspot_def)
  from assms p1 i f m obtain p2 where p2: "add_metafields metas p1 = Inr p2"
    by (cases "add_metafields metas p1") (auto simp: send_to_hubspot_def)
  let ?properties = "apply_allowed_values p2 (allowed_values config)"
  have rp: "record_properties config shopify_obj metas = Inr ?properties"
    using p1 p2 by (simp add: record_properties_def)
  obtain r2 s2 where g: "get_hubspot_properties net (hubspot_object config) s1 = (r2, s2)"
    by (cases "get_hubspot_properties net (hubspot_object config) s1")
  note t2 = get_hubspot_properties_trace [OF g]
  from assms p1 i f m p2 g obtain cur where cur: "r2 = Inr cur"
    by (cases r2) (auto simp: send_to_hubspot_def Let_def)
  obtain r3 s3 where c: "create_missing net (hubspot_object config) (property_group config)
      cur (map fst ?properties) s2 = (r3, s3)"
    by (cases "create_missing net (hubspot_object config) (property_group config)
      cur (map fst ?properties) s2")
  from assms p1 i f m p2 g cur c have r3: "r3 = Inr ()"
    by (cases r3) (auto simp: send_to_hubspot_def Let_def)
  from create_missing_requests [OF c [unfolded r3]]
  have t3: "snd s3 = snd s2 @ map (\<lambda>name. PostProperty (hubspot_object config @ ''s'') name
                                  (property_group config))
                        (filter (\<lambda>name. name \<notin> set cur) (map fst ?properties))" .
  have "\<exists>ws. snd s' = snd s3 @ ws \<and> (\<forall>c\<in>set ws. is_object_request c)"
  proof (cases "py_truthy (dict_get ?properties (unique_field config))")
    case False
    with assms p1 i f m p2 g cur c r3 have "s' = s3"
      by (simp add: send_to_hubspot_def Let_def)
    then show ?thesis by simp
  next
    case True
    with assms p1 i f m p2 g cur c r3
    have "search_then_write net (hubspot_object config) (unique_field config) ?properties s3
            = (Inr out, s')"
      by (simp add: send_to_hubspot_def Let_def)
    then show ?thesis by (rule search_then_write_requests)
  qed
  then obtain ws where ws: "snd s' = snd s3 @ ws" "\<forall>c\<in>set ws. is_object_request c" by blast
  from t1 t2 t3 ws(1)
  have "snd s' = snd s @ GetMetafields (shopify_key config) i
                  # GetProperties (hubspot_object config @ ''s'')
                  # map (\<lambda>name. PostProperty (hubspot_object config @ ''s'') name
                                  (property_group config))
                        (filter (\<lambda>name. name \<notin> set cur) (map fst ?properties))
                  @ ws"
    by simp
  with i f m rp g cur ws(2) show ?thesis by blast
qed

lemma ensure_metafield_properties_present:
  "set keys \<subseteq> set hubspot_props \<Longrightarrow>
   ensure_metafield_properties net keys hubspot_props s = (Inr hubspot_props, s)"
  by (induction keys) simp_all

lemma ensure_metafield_properties_fresh:
  assumes "key \<notin> set hubspot_props"
      and "request net (PostProperty ''contacts'' key ''contactinformation'') s = (Reply status b, s1)"
      and "fetch_hubspot_properties net ''contacts'' s1 = (Inr fetched, s2)"
  shows "ensure_metafield_properties net (key # rest) hubspot_props s
           = ensure_metafield_properties net rest fetched s2"
  using assms by (simp add: create_hubspot_property_contacts_def)

lemma fetch_hubspot_properties_hub:
  "fetch_hubspot_properties hub_net ''contacts'' (w, t)
     = (Inr (remdups (filter (\<lambda>n. n \<noteq> []) (hub_properties w ''contacts''))),
        (w, t @ [GetProperties ''contacts'']))"
  by (simp add: fetch_hubspot_properties_def request_def is_success_def)

lemma ensure_metafield_properties_hub:
  assumes "distinct keys"
      and "set hubspot_props = {n \<in> set (hub_properties w ''contacts''). n \<noteq> []}"
  shows "\<exists>ps w'. ensure_metafield_properties hub_net keys hubspot_props (w, t)
           = (Inr ps,
              (w', t @ concat (map (\<lambda>k. [PostProperty ''contacts'' k ''contactinformation'',
                                          GetProperties ''contacts''])
                                  (filter (\<lambda>k. k \<notin> set hubspot_props) keys))))"
  using assms
proof (induction keys arbitrary: hubspot_props w t)
  case Nil
  show ?case by simp
next
  case (Cons k keys)
  from Cons.prems have d: "distinct keys" and nk: "k \<notin> set keys" by simp_all
  show ?case
  proof (cases "k \<in> set hubspot_props")
    case True
    from Cons.IH [OF d Cons.prems(2), of t] True show ?thesis by simp
  next
    case False
    obtain st w1 where
      c: "request hub_net (PostProperty ''contacts'' k ''contactinformation'') (w, t)
            = (Reply st NoBody, (w1, t @ [PostProperty ''contacts'' k ''contactinformation'']))"
      and w1: "set (hub_properties w1 ''contacts'') = insert k (set (hub_properties w ''contacts''))"
      by (cases "k \<in> set (hub_properties w ''contacts'')") (auto simp: request_def)
    let ?fetched = "remdups (filter (\<lambda>n. n \<noteq> []) (hub_properties w1 ''contacts''))"
    let ?t2 = "t @ [PostProperty ''contacts'' k ''contactinformation''] @ [GetProperties ''contacts'']"
    have f: "fetch_hubspot_properties hub_net ''contacts''
               (w1, t @ [PostProperty ''contacts'' k ''contactinformation''])
             = (Inr ?fetched, (w1, ?t2))"
      by (simp add: fetch_hubspot_properties_hub)
    have inv: "set ?fetched = {n \<in> set (hub_properties w1 ''contacts''). n \<noteq> []}"
      by auto
    have same: "filter (\<lambda>x. x \<notin> set ?fetched) keys = filter (\<lambda>x. x \<notin> set hubspot_props) keys"
    proof (rule filter_cong [OF refl])
      fix x assume "x \<in> set keys"
      with nk have "x \<noteq> k" by auto
      then show "(x \<notin> set ?fetched) = (x \<notin> set hubspot_props)"
        using w1 Cons.prems(2) by auto
    qed
    from Cons.IH [OF d inv, of ?t2] obtain ps w' where
      "ensure_metafield_properties hub_net keys ?fetched (w1, ?t2)
         = (Inr ps,
            (w', ?t2 @ concat (map (\<lambda>k. [PostProperty ''contacts'' k ''contactinformation'',
                                          GetProperties ''contacts''])
                                  (filter (\<lambda>k. k \<notin> set ?fetched) keys))))"
      by blast
    with ensure_metafield_properties_fresh [OF False c f, of keys] same False
    show ?thesis by simp
  qed
qed

text \<open>
  C6 (as amended). In \<^verbatim>\<open>sync_custom_attributes\<close> every property creation is followed
  immediately by a new fetch of the property set, and the keys after it are checked
  against the set just fetched: a key found in it causes no request, and when all
  remaining keys are in it the loop ends. Against the reference destination the keys
  created are exactly the keys missing from the set the loop started with. In
  \<^verbatim>\<open>SyncManager.send_to_hubspot\<close> the properties are listed once per record, after the
  metafield fetch and before the creation loop, and the creations sent are exactly one
  for each name of the property map that is missing from that one listing, in the order
  of the map; they are followed only by requests on objects.
\<close>

theorem refetch_after_each_creation:
  "(ensure_metafield_properties net keys hubspot_props s = (Inr props', s')
      \<longrightarrow> (\<exists>created. set created \<subseteq> set keys \<and>
             snd s' = snd s @ concat (map (\<lambda>k. [PostProperty ''contacts'' k ''contactinformation'',
                                                  GetProperties ''contacts'']) created)))
   \<and> (create_missing net obj grp cur names s = (r, s')
      \<longrightarrow> (\<exists>cs. snd s' = snd s @ cs
               \<and> (\<forall>c\<in>set cs. \<exists>name. c = PostProperty (obj @ ''s'') name grp)))
   \<and> (send_to_hubspot net config shopify_obj s = (out, s')
      \<longrightarrow> (\<exists>cs. snd s' = snd s @ cs \<and> length (filter is_listing cs) \<le> 1))
   \<and> (create_missing net obj grp cur names s = (Inr u, s')
      \<longrightarrow> snd s' = snd s @ map (\<lambda>name. PostProperty (obj @ ''s'') name grp)
                               (filter (\<lambda>name. name \<notin> set cur) names))
   \<and> (create_missing net obj grp cur names s = (r, s')
      \<longrightarrow> (\<exists>k. snd s' = snd s @ take k (map (\<lambda>name. PostProperty (obj @ ''s'') name grp)
                                             (filter (\<lambda>name. name \<notin> set cur) names))))
   \<and> (send_to_hubspot net config shopify_obj s = (Inr res, s')
      \<longrightarrow> (\<exists>shopify_id metafields s1 properties current s2 ws.
             obj_get shopify_obj ''id'' = Inr shopify_id
           \<and> fetch_metafields net (shopify_key config) shopify_id s = (Inr metafields, s1)
           \<and> record_properties config shopify_obj metafields = Inr properties
           \<and> get_hubspot_properties net (hubspot_object config) s1 = (Inr current, s2)
           \<and> snd s' = snd s @ GetMetafields (shopify_key config) shopify_id
                    # GetProperties (hubspot_object config @ ''s'')
                    # map (\<lambda>name. PostProperty (hubspot_object config @ ''s'') name
                                    (property_group config))
                          (filter (\<lambda>name. name \<notin> set current) (map fst properties))
                    @ ws
           \<and> (\<forall>c\<in>set ws. is_object_request c)))
   \<and> (key \<notin> set hubspot_props
        \<and> request net (PostProperty ''contacts'' key ''contactinformation'') s
            = (Reply status b, s1)
        \<and> fetch_hubspot_properties net ''contacts'' s1 = (Inr fetched, s2)
      \<longrightarrow> ensure_metafield_properties net (key # rest) hubspot_props s
            = ensure_metafield_properties net rest fetched s2)
   \<and> (set keys \<subseteq> set hubspot_props
      \<longrightarrow> ensure_metafield_properties net keys hubspot_props s = (Inr hubspot_props, s))
   \<and> (key \<notin> set hubspot_props
        \<and> request net (PostProperty ''contacts'' key ''contactinformation'') s
            = (Reply status b, s1)
        \<and> fetch_hubspot_properties net ''contacts'' s1 = (Inr fetched, s2)
        \<and> set rest \<subseteq> set fetched
      \<longrightarrow> ensure_metafield_properties net (key # rest) hubspot_props s = (Inr fetched, s2))
   \<and> (distinct keys
        \<and> set hubspot_props = {n \<in> set (hub_properties w ''contacts''). n \<noteq> []}
      \<longrightarrow> (\<exists>ps w'. ensure_metafield_properties hub_net keys hubspot_props (w, t)
             = (Inr ps,
                (w', t @ concat (map (\<lambda>k. [PostProperty ''contacts'' k ''contactinformation'',
                                            GetProperties ''contacts''])
                                    (filter (\<lambda>k. k \<notin> set hubspot_props) keys))))))"
proof (intro conjI impI)
  assume "ensure_metafield_properties net keys hubspot_props s = (Inr props', s')"
  then show "\<exists>created. set created \<subseteq> set keys \<and>
             snd s' = snd s @ concat (map (\<lambda>k. [PostProperty ''contacts'' k ''contactinformation'',
                                                  GetProperties ''contacts'']) created)"
    by (rule ensure_metafield_properties_calls)
next
  assume "create_missing net obj grp cur names s = (r, s')"
  then show "\<exists>cs. snd s' = snd s @ cs
               \<and> (\<forall>c\<in>set cs. \<exists>name. c = PostProperty (obj @ ''s'') name grp)"
    by (rule create_missing_calls)
next
  assume "send_to_hubspot net config shopify_obj s = (out, s')"
  then show "\<exists>cs. snd s' = snd s @ cs \<and> length (filter is_listing cs) \<le> 1"
    by (rule send_to_hubspot_listings)
next
  assume "create_missing net obj grp cur names s = (Inr u, s')"
  then show "snd s' = snd s @ map (\<lambda>name. PostProperty (obj @ ''s'') name grp)
                               (filter (\<lambda>name. name \<notin> set cur) names)"
    by (rule create_missing_requests)
next
  assume "create_missing net obj grp cur names s = (r, s')"
  then show "\<exists>k. snd s' = snd s @ take k (map (\<lambda>name. PostProperty (obj @ ''s'') name grp)
                                             (filter (\<lambda>name. name \<notin> set cur) names))"
    by (rule create_missing_requests_prefix)
next
  assume "send_to_hubspot net config shopify_obj s = (Inr res, s')"
  then show "\<exists>shopify_id metafields s1 properties current s2 ws.
             obj_get shopify_obj ''id'' = Inr shopify_id
           \<and> fetch_metafields net (shopify_key config) shopify_id s = (Inr metafields, s1)
           \<and> record_properties config shopify_obj metafields = Inr properties
           \<and> get_hubspot_properties net (hubspot_object config) s1 = (Inr current, s2)
           \<and> snd s' = snd s @ GetMetafields (shopify_key config) shopify_id
                    # GetProperties (hubspot_object config @ ''s'')
                    # map (\<lambda>name. PostProperty (hubspot_object config @ ''s'') name
                                    (property_group config))
                          (filter (\<lambda>name. name \<notin> set current) (map fst properties))
                    @ ws
           \<and> (\<forall>c\<in>set ws. is_object_request c)"
    by (rule send_to_hubspot_requests)
next
  assume "key \<notin> set hubspot_props
        \<and> request net (PostProperty ''contacts'' key ''contactinformation'') s
            = (Reply status b, s1)
        \<and> fetch_hubspot_properties net ''contacts'' s1 = (Inr fetched, s2)"
  then show "ensure_metafield_properties net (key # rest) hubspot_props s
            = ensure_metafield_properties net rest fetched s2"
    using ensure_metafield_properties_fresh by blast
next
  assume "set keys \<subseteq> set hubspot_props"
  then show "ensure_metafield_properties net keys hubspot_props s = (Inr hubspot_props, s)"
    by (rule ensure_metafield_properties_present)
next
  assume h: "key \<notin> set hubspot_props
        \<and> request net (PostProperty ''contacts'' key ''contactinformation'') s
            = (Reply status b, s1)
        \<and> fetch_hubspot_properties net ''contacts'' s1 = (Inr fetched, s2)
        \<and> set rest \<subseteq> set fetched"
  then have "ensure_metafield_properties net (key # rest) hubspot_props s
            = ensure_metafield_properties net rest fetched s2"
    using ensure_metafield_properties_fresh by blast
  with h show "ensure_metafield_properties net (key # rest) hubspot_props s = (Inr fetched, s2)"
    by (simp add: ensure_metafield_properties_present)
next
  assume "distinct keys
        \<and> set hubspot_props = {n \<in> set (hub_properties w ''contacts''). n \<noteq> []}"
  then show "\<exists>ps w'. ensure_metafield_properties hub_net keys hubspot_props (w, t)
             = (Inr ps,
                (w', t @ concat (map (\<lambda>k. [PostProperty ''contacts'' k ''contactinformation'',
                                            GetProperties ''contacts''])
                                    (filter (\<lambda>k. k \<notin> set hubspot_props) keys))))"
    using ensure_metafield_properties_hub by blast
qed

theorem refetch_after_each_creation_witness:
  "(\<exists>created. set created \<subseteq> set [''vip'', ''tier''] \<and>
       snd (snd (ensure_metafield_properties hub_net [''vip'', ''tier''] [] (scenario_hub, [])))
         = [] @ concat (map (\<lambda>k. [PostProperty ''contacts'' k ''contactinformation'',
                                    GetProperties ''contacts'']) created))
   \<and> (\<exists>cs. snd (snd (create_missing hub_net ''contact'' ''contactinformation'' []
                        [''vip'', ''tier''] (scenario_hub, []))) = [] @ cs
          \<and> (\<forall>c\<in>set cs. \<exists>name. c = PostProperty (''contact'' @ ''s'') name ''contactinformation''))
   \<and> (\<exists>cs. snd (snd (send_to_hubspot hub_net customer_config customer_a (scenario_hub, [])))
            = [] @ cs \<and> length (filter is_listing cs) \<le> 1)
   \<and> snd (snd (create_missing hub_net ''contact'' ''contactinformation'' [''tier'']
                  [''vip'', ''tier''] (scenario_hub, [])))
       = [PostProperty ''contacts'' ''vip'' ''contactinformation'']
   \<and> (\<exists>k. snd (snd (create_missing (failing_net (\<lambda>c. True)) ''contact'' ''contactinformation''
                        [] [''vip'', ''tier''] (scenario_hub, [])))
            = [] @ take k [PostProperty ''contacts'' ''vip'' ''contactinformation'',
                           PostProperty ''contacts'' ''tier'' ''contactinformation''])
   \<and> (\<exists>ws. snd (snd (send_to_hubspot hub_net customer_config customer_a
                        (scenario_hub\<lparr>hub_properties := (\<lambda>obj. [''email''])\<rparr>, [])))
            = [GetMetafields ''customers'' (JInt 1), GetProperties ''contacts'',
               PostProperty ''contacts'' ''vip'' ''contactinformation''] @ ws
          \<and> (\<forall>c\<in>set ws. is_object_request c))
   \<and> fst (ensure_metafield_properties hub_net (''vip'' # [''tier'']) [] (scenario_hub, []))
       = Inr [''vip'', ''tier'']
   \<and> ensure_metafield_properties hub_net [''vip''] [''tier'', ''vip''] (scenario_hub, [])
       = (Inr [''tier'', ''vip''], (scenario_hub, []))
   \<and> snd (snd (ensure_metafield_properties hub_net (''vip'' # [''tier'']) []
                  (scenario_hub\<lparr>hub_properties := (\<lambda>obj. [''tier''])\<rparr>, [])))
       = [PostProperty ''contacts'' ''vip'' ''contactinformation'', GetProperties ''contacts'']
   \<and> (\<exists>ps w'. ensure_metafield_properties hub_net [''vip'', ''tier''] [''tier'']
                  (scenario_hub\<lparr>hub_properties := (\<lambda>obj. [''tier''])\<rparr>, [])
         = (Inr ps,
            (w', [] @ concat (map (\<lambda>k. [PostProperty ''contacts'' k ''contactinformation'',
                                         GetProperties ''contacts''])
                                 (filter (\<lambda>k. k \<notin> set [''tier'']) [''vip'', ''tier''])))))"
proof (intro conjI)
  let ?s = "(scenario_hub, [] :: call list)"
  have h1: "ensure_metafield_properties hub_net [''vip'', ''tier''] [] ?s
            = (Inr [''vip'', ''tier''],
               snd (ensure_metafield_properties hub_net [''vip'', ''tier''] [] ?s))"
    by (simp add: create_hubspot_property_contacts_def fetch_hubspot_properties_def
          request_def is_success_def example_defs)
  from refetch_after_each_creation [THEN conjunct1, THEN mp, OF h1]
  show "\<exists>created. set created \<subseteq> set [''vip'', ''tier''] \<and>
       snd (snd (ensure_metafield_properties hub_net [''vip'', ''tier''] [] ?s))
         = [] @ concat (map (\<lambda>k. [PostProperty ''contacts'' k ''contactinformation'',
                                    GetProperties ''contacts'']) created)"
    by simp
next
  let ?s = "(scenario_hub, [] :: call list)"
  have h2: "create_missing hub_net ''contact'' ''contactinformation'' [] [''vip'', ''tier''] ?s
            = (fst (create_missing hub_net ''contact'' ''contactinformation'' [] [''vip'', ''tier''] ?s),
               snd (create_missing hub_net ''contact'' ''contactinformation'' [] [''vip'', ''tier''] ?s))"
    by simp
  from refetch_after_each_creation [THEN conjunct2, THEN conjunct1, THEN mp, OF h2]
  show "\<exists>cs. snd (snd (create_missing hub_net ''contact'' ''contactinformation'' []
                        [''vip'', ''tier''] ?s)) = [] @ cs
          \<and> (\<forall>c\<in>set cs. \<exists>name. c = PostProperty (''contact'' @ ''s'') name ''contactinformation'')"
    by simp
next
  let ?s = "(scenario_hub, [] :: call list)"
  have h3: "send_to_hubspot hub_net customer_config customer_a ?s
            = (fst (send_to_hubspot hub_net customer_config customer_a ?s),
               snd (send_to_hubspot hub_net customer_config customer_a ?s))"
    by simp
  from refetch_after_each_creation [THEN conjunct2, THEN conjunct2, THEN conjunct1, THEN mp, OF h3]
  show "\<exists>cs. snd (snd (send_to_hubspot hub_net customer_config customer_a ?s)) = [] @ cs
          \<and> length (filter is_listing cs) \<le> 1"
    by simp
next
  let ?s = "(scenario_hub, [] :: call list)"
  let ?run = "create_missing hub_net ''contact'' ''contactinformation'' [''tier'']
                [''vip'', ''tier''] ?s"
  have h4: "?run = (Inr (), snd ?run)"
    by (simp add: create_hubspot_property_def request_def example_defs)
  from refetch_after_each_creation
         [THEN conjunct2, THEN conjunct2, THEN conjunct2, THEN conjunct1, THEN mp, OF h4]
  show "snd (snd ?run) = [PostProperty ''contacts'' ''vip'' ''contactinformation'']"
    by simp
next
  let ?s = "(scenario_hub, [] :: call list)"
  let ?run = "create_missing (failing_net (\<lambda>c. True)) ''contact'' ''contactinformation''
                [] [''vip'', ''tier''] ?s"
  have h5: "?run = (fst ?run, snd ?run)" by simp
  from refetch_after_each_creation
         [THEN conjunct2, THEN conjunct2, THEN conjunct2, THEN conjunct2, THEN conjunct1,
          THEN mp, OF h5]
  show "\<exists>k. snd (snd ?run)
            = [] @ take k [PostProperty ''contacts'' ''vip'' ''contactinformation'',
                           PostProperty ''contacts'' ''tier'' ''contactinformation'']"
    by simp
next
  let ?s = "(scenario_hub\<lparr>hub_properties := (\<lambda>obj. [''email''])\<rparr>, [] :: call list)"
  let ?run = "send_to_hubspot hub_net customer_config customer_a ?s"
  have h6: "?run = (Inr Created, snd ?run)"
    by (simp add: run_defs example_defs Let_def)
  from refetch_after_each_creation
         [THEN conjunct2, THEN conjunct2, THEN conjunct2, THEN conjunct2, THEN conjunct2,
          THEN conjunct1, THEN mp, OF h6]
  obtain shopify_id metafields s1 properties current s2 ws where
    f: "fetch_metafields hub_net (shopify_key customer_config) shopify_id ?s = (Inr metafields, s1)"
    and i: "obj_get customer_a ''id'' = Inr shopify_id"
    and p: "record_properties customer_config customer_a metafields = Inr properties"
    and g: "get_hubspot_properties hub_net (hubspot_object customer_config) s1 = (Inr current, s2)"
    and tr: "snd (snd ?run) = snd ?s @ GetMetafields (shopify_key customer_config) shopify_id
                    # GetProperties (hubspot_object customer_config @ ''s'')
                    # map (\<lambda>name. PostProperty (hubspot_object customer_config @ ''s'') name
                                    (property_group customer_config))
                          (filter (\<lambda>name. name \<notin> set current) (map fst properties))
                    @ ws"
    and ws: "\<forall>c\<in>set ws. is_object_request c"
    by blast
  from i have i': "shopify_id = JInt 1"
    by (simp add: obj_get_def dict_get_def customer_a_def)
  from f i' have m: "metafields = [\<lparr>meta_key = Some ''vip'', meta_value = JStr ''true''\<rparr>]"
    and s1: "s1 = (fst ?s, [GetMetafields ''customers'' (JInt 1)])"
    by (auto simp: run_defs example_defs)
  from p m have p': "properties = [(''email'', JStr ''a@x.com''), (''vip'', JStr ''true'')]"
    by (simp add: run_defs example_defs)
  from g s1 have c': "current = [''email'']"
    by (auto simp: run_defs example_defs)
  from tr i' p' c' ws
  show "\<exists>ws. snd (snd ?run)
            = [GetMetafields ''customers'' (JInt 1), GetProperties ''contacts'',
               PostProperty ''contacts'' ''vip'' ''contactinformation''] @ ws
          \<and> (\<forall>c\<in>set ws. is_object_request c)"
    by (simp add: customer_config_def)
next
  let ?s = "(scenario_hub, [] :: call list)"
  let ?s1 = "snd (request hub_net (PostProperty ''contacts'' ''vip'' ''contactinformation'') ?s)"
  have h7: "''vip'' \<notin> set ([] :: string list)
        \<and> request hub_net (PostProperty ''contacts'' ''vip'' ''contactinformation'') ?s
            = (Reply 201 NoBody, ?s1)
        \<and> fetch_hubspot_properties hub_net ''contacts'' ?s1
            = (Inr [''vip''], snd (fetch_hubspot_properties hub_net ''contacts'' ?s1))"
    by (simp add: request_def fetch_hubspot_properties_def is_success_def example_defs)
  from refetch_after_each_creation
         [where rest = "[''tier'']",
          THEN conjunct2, THEN conjunct2, THEN conjunct2, THEN conjunct2, THEN conjunct2,
          THEN conjunct2, THEN conjunct1, THEN mp, OF h7]
  show "fst (ensure_metafield_properties hub_net (''vip'' # [''tier'']) [] ?s)
        = Inr [''vip'', ''tier'']"
    by (simp add: create_hubspot_property_contacts_def fetch_hubspot_properties_def
          request_def is_success_def example_defs)
next
  have h8: "set [''vip''] \<subseteq> set [''tier'', ''vip'']" by simp
  from refetch_after_each_creation
         [THEN conjunct2, THEN conjunct2, THEN conjunct2, THEN conjunct2, THEN conjunct2,
          THEN conjunct2, THEN conjunct2, THEN conjunct1, THEN mp, OF h8]
  show "ensure_metafield_properties hub_net [''vip''] [''tier'', ''vip''] (scenario_hub, [])
       = (Inr [''tier'', ''vip''], (scenario_hub, []))" .
next
  let ?s = "(scenario_hub\<lparr>hub_properties := (\<lambda>obj. [''tier''])\<rparr>, [] :: call list)"
  let ?s1 = "snd (request hub_net (PostProperty ''contacts'' ''vip'' ''contactinformation'') ?s)"
  have h9: "''vip'' \<notin> set ([] :: string list)
        \<and> request hub_net (PostProperty ''contacts'' ''vip'' ''contactinformation'') ?s
            = (Reply 201 NoBody, ?s1)
        \<and> fetch_hubspot_properties hub_net ''contacts'' ?s1
            = (Inr [''tier'', ''vip''], snd (fetch_hubspot_properties hub_net ''contacts'' ?s1))
        \<and> set [''tier''] \<subseteq> set [''tier'', ''vip'']"
    by (simp add: request_def fetch_hubspot_properties_def is_success_def example_defs)
  from refetch_after_each_creation
         [THEN conjunct2, THEN conjunct2, THEN conjunct2, THEN conjunct2, THEN conjunct2,
          THEN conjunct2, THEN conjunct2, THEN conjunct2, THEN conjunct1, THEN mp, OF h9]
  show "snd (snd (ensure_metafield_properties hub_net (''vip'' # [''tier'']) [] ?s))
       = [PostProperty ''contacts'' ''vip'' ''contactinformation'', GetProperties ''contacts'']"
    by (simp add: request_def fetch_hubspot_properties_def is_success_def example_defs)
next
  let ?w = "scenario_hub\<lparr>hub_properties := (\<lambda>obj. [''tier''])\<rparr>"
  have h10: "distinct [''vip'', ''tier'']
        \<and> set [''tier''] = {n \<in> set (hub_properties ?w ''contacts''). n \<noteq> []}"
    by auto
  from refetch_after_each_creation
         [where t = "[]",
          THEN conjunct2, THEN conjunct2, THEN conjunct2, THEN conjunct2, THEN conjunct2,
          THEN conjunct2, THEN conjunct2, THEN conjunct2, THEN conjunct2, THEN mp, OF h10]
  show "\<exists>ps w'. ensure_metafield_properties hub_net [''vip'', ''tier''] [''tier''] (?w, [])
         = (Inr ps,
            (w', [] @ concat (map (\<lambda>k. [PostProperty ''contacts'' k ''contactinformation'',
                                         GetProperties ''contacts''])
                                 (filter (\<lambda>k. k \<notin> set [''tier'']) [''vip'', ''tier'']))))"
    by simp
qed

text \<open>
  C6 as stated fails for \<^verbatim>\<open>SyncManager.send_to_hubspot\<close>: for the customer of the
  scenarios two properties are missing, and both creations are sent in a row after the
  single listing; the property set is not fetched again after the first creation.
\<close>

theorem batched_property_creations:
  "snd (snd (send_to_hubspot hub_net customer_config customer_a (scenario_hub, [])))
     = [GetMetafields ''customers'' (JInt 1),
        GetProperties ''contacts'',
        PostProperty ''contacts'' ''email'' ''contactinformation'',
        PostProperty ''contacts'' ''vip'' ''contactinformation'',
        PostSearch ''contacts'' ''email'' (JStr ''a@x.com'') (Some 1),
        PostObject ''contacts'' [(''email'', JStr ''a@x.com''), (''vip'', JStr ''true'')]]"
  by (simp add: run_defs example_defs Let_def)







text \<open>
  C9. \<^verbatim>\<open>send_to_hubspot\<close> of \<^verbatim>\<open>05_dynamic_fileds\<close> run on a customer whose mapped field
  holds a nested object: the object reaches the create request as it is, not as a string.
\<close>

theorem structured_value_sent_unserialized:
  "snd (snd (send_to_hubspot hub_net address_config customer_c (scenario_hub, [])))
     = [GetMetafields ''customers'' (JInt 3),
        GetProperties ''contacts'',
        PostProperty ''contacts'' ''email'' ''contactinformation'',
        PostProperty ''contacts'' ''address'' ''contactinformation'',
        PostSearch ''contacts'' ''email'' (JStr ''c@x.com'') (Some 1),
        PostObject ''contacts''
          [(''email'', JStr ''c@x.com''), (''address'', JDict [(''city'', JStr ''Pune'')])]]"
  by (simp add: run_defs example_defs Let_def)

end
